theory Spec2Isabelle
  imports Main "HOL-Library.Sublist"
begin

section \<open>Values of the Python program\<close>

text \<open>
  The alert pipeline of \<^verbatim>\<open>lambda/auto_heal_lambda.py\<close> works on decoded JSON:
  the event, the alert message and every collaborator response are nested Python values.
  A dictionary is an association list (insertion order, the first binding of a key is the
  one looked up); dictionary keys are strings, as JSON and the collaborators' responses
  have them. A Python \<^verbatim>\<open>str\<close> is a \<^typ>\<open>string\<close> whose characters are read as code
  points below 256.

  A float is carried by the two observations the pipeline can make of it: whether it is
  non-zero (its truth value) and its \<^verbatim>\<open>str()\<close> text.
\<close>

datatype pyval =
    PNone
  | PBool bool
  | PInt int
  | PFloat bool string
  | PStr string
  | PList "pyval list"
  | PDict "(string \<times> pyval) list"

text \<open>
  Exceptions are values: the class and the text that \<^verbatim>\<open>str(e)\<close> gives.
  \<^verbatim>\<open>JSONDecodeError\<close> is a subclass of \<^verbatim>\<open>ValueError\<close> in Python; here
  \<open>ValueError\<close> stands for a \<^verbatim>\<open>ValueError\<close> that is not a \<^verbatim>\<open>JSONDecodeError\<close>, and
  \<open>OtherError\<close> for any other subclass of \<^verbatim>\<open>Exception\<close>, such as the client errors
  of the collaborators.
\<close>

datatype exc_class =
  KeyError | TypeError | IndexError | AttributeError | ValueError | JSONDecodeError | OtherError

type_synonym py_exception = "exc_class \<times> string"

definition exc_str :: "py_exception \<Rightarrow> string" where
  "exc_str e = snd e"

subsection \<open>Built-in operations\<close>

fun type_name :: "pyval \<Rightarrow> string" where
  "type_name PNone = ''NoneType''"
| "type_name (PBool _) = ''bool''"
| "type_name (PInt _) = ''int''"
| "type_name (PFloat _ _) = ''float''"
| "type_name (PStr _) = ''str''"
| "type_name (PList _) = ''list''"
| "type_name (PDict _) = ''dict''"

text \<open>Truth value of a value, as \<^verbatim>\<open>if v:\<close> and \<^verbatim>\<open>not v\<close> test it.\<close>

fun py_truthy :: "pyval \<Rightarrow> bool" where
  "py_truthy PNone = False"
| "py_truthy (PBool b) = b"
| "py_truthy (PInt i) = (i \<noteq> 0)"
| "py_truthy (PFloat nz _) = nz"
| "py_truthy (PStr s) = (s \<noteq> [])"
| "py_truthy (PList xs) = (xs \<noteq> [])"
| "py_truthy (PDict kvs) = (kvs \<noteq> [])"

text \<open>The single quote, for the texts that quote a name.\<close>

definition sq :: string where
  "sq = [CHR 0x27]"

definition attribute_error :: "pyval \<Rightarrow> string \<Rightarrow> py_exception" where
  "attribute_error v attr =
     (AttributeError,
      sq @ type_name v @ sq @ '' object has no attribute '' @ sq @ attr @ sq)"

text \<open>\<^verbatim>\<open>d.get(key, default)\<close>: only a dictionary has the method.\<close>

fun py_get :: "pyval \<Rightarrow> string \<Rightarrow> pyval \<Rightarrow> py_exception + pyval" where
  "py_get (PDict kvs) k d = Inr (case map_of kvs k of Some v \<Rightarrow> v | None \<Rightarrow> d)"
| "py_get v k d = Inl (attribute_error v ''get'')"

text \<open>
  \<^verbatim>\<open>s.lower()\<close>: only a string has the method. On code points below 256 the lower-case
  mapping moves \<^verbatim>\<open>A-Z\<close> and the accented capitals \<^verbatim>\<open>0xC0-0xDE\<close> (the
  multiplication sign \<^verbatim>\<open>0xD7\<close> apart) up by 32 and leaves every other character alone.
\<close>

definition lower_char :: "char \<Rightarrow> char" where
  "lower_char c =
     (let n = (of_char c :: nat)
      in if (65 \<le> n \<and> n \<le> 90) \<or> (192 \<le> n \<and> n \<le> 222 \<and> n \<noteq> 215)
         then char_of (n + 32) else c)"

definition str_lower :: "string \<Rightarrow> string" where
  "str_lower s = map lower_char s"

fun py_lower :: "pyval \<Rightarrow> py_exception + string" where
  "py_lower (PStr s) = Inr (str_lower s)"
| "py_lower v = Inl (attribute_error v ''lower'')"

text \<open>\<^verbatim>\<open>s.startswith(p)\<close> and the substring test \<^verbatim>\<open>sub in s\<close> on strings.\<close>

definition startswith :: "string \<Rightarrow> string \<Rightarrow> bool" where
  "startswith s p = (take (length p) s = p)"

fun str_contains :: "string \<Rightarrow> string \<Rightarrow> bool" where
  "str_contains sub [] = (sub = [])"
| "str_contains sub (c # cs) = (startswith (c # cs) sub \<or> str_contains sub cs)"

section \<open>Classification\<close>

text \<open>
  \<^verbatim>\<open>determine_healing_action(message, instance_id)\<close>. The two reads at the top of the
  function call \<^verbatim>\<open>.get\<close> and \<^verbatim>\<open>.lower()\<close> on whatever the message holds, so each of them
  can raise \<^verbatim>\<open>AttributeError\<close>; the rules that follow are an \<^verbatim>\<open>if\<close> chain on the two
  lower-cased names. The function logs nothing and calls no collaborator.
\<close>

definition alarm_name_of :: "pyval \<Rightarrow> py_exception + string" where
  "alarm_name_of message =
     (case py_get message ''AlarmName'' (PStr '''') of
        Inl e \<Rightarrow> Inl e
      | Inr v \<Rightarrow> py_lower v)"

definition metric_name_of :: "pyval \<Rightarrow> py_exception + string" where
  "metric_name_of message =
     (case py_get message ''Trigger'' (PDict []) of
        Inl e \<Rightarrow> Inl e
      | Inr t \<Rightarrow>
          (case py_get t ''MetricName'' (PStr '''') of
             Inl e \<Rightarrow> Inl e
           | Inr v \<Rightarrow> py_lower v))"

definition healing_rules :: "string \<Rightarrow> string \<Rightarrow> string" where
  "healing_rules alarm_name metric_name =
     (if str_contains ''status-check'' alarm_name \<or> str_contains ''statuscheckfailed'' metric_name
      then ''reboot''
      else if str_contains ''cpu'' alarm_name \<or> str_contains ''cpuutilization'' metric_name
      then ''optimize_cpu''
      else if str_contains ''memory'' alarm_name \<or> str_contains ''memoryutilization'' metric_name
      then ''clear_cache''
      else if str_contains ''disk'' alarm_name \<or> str_contains ''diskutilization'' metric_name
      then ''cleanup_disk''
      else ''diagnostic'')"

definition determine_healing_action :: "pyval \<Rightarrow> string \<Rightarrow> py_exception + string" where
  "determine_healing_action message instance_id =
     (case alarm_name_of message of
        Inl e \<Rightarrow> Inl e
      | Inr alarm_name \<Rightarrow>
          (case metric_name_of message of
             Inl e \<Rightarrow> Inl e
           | Inr metric_name \<Rightarrow> Inr (healing_rules alarm_name metric_name)))"

section \<open>Subscripts, membership and text\<close>

text \<open>
  The texts of the interpreter's own exceptions are those of CPython 3.12; no result below
  depends on their wording.
\<close>

definition and_then :: "'e + 'a \<Rightarrow> ('a \<Rightarrow> 'e + 'b) \<Rightarrow> 'e + 'b" where
  "and_then r f = (case r of Inl e \<Rightarrow> Inl e | Inr v \<Rightarrow> f v)"

definition not_subscriptable :: "pyval \<Rightarrow> py_exception" where
  "not_subscriptable v = (TypeError, sq @ type_name v @ sq @ '' object is not subscriptable'')"

text \<open>\<^verbatim>\<open>v[k]\<close> with a string key \<open>k\<close>.\<close>

fun py_item :: "pyval \<Rightarrow> string \<Rightarrow> py_exception + pyval" where
  "py_item (PDict kvs) k =
     (case map_of kvs k of Some v \<Rightarrow> Inr v | None \<Rightarrow> Inl (KeyError, sq @ k @ sq))"
| "py_item (PList xs) k = Inl (TypeError, ''list indices must be integers or slices, not str'')"
| "py_item (PStr s) k = Inl (TypeError, ''string indices must be integers, not '' @ sq @ ''str'' @ sq)"
| "py_item v k = Inl (not_subscriptable v)"

text \<open>\<^verbatim>\<open>v[0]\<close>.\<close>

fun py_first :: "pyval \<Rightarrow> py_exception + pyval" where
  "py_first (PList []) = Inl (IndexError, ''list index out of range'')"
| "py_first (PList (x # xs)) = Inr x"
| "py_first (PStr []) = Inl (IndexError, ''string index out of range'')"
| "py_first (PStr (c # cs)) = Inr (PStr [c])"
| "py_first (PDict kvs) = Inl (KeyError, ''0'')"
| "py_first v = Inl (not_subscriptable v)"

text \<open>\<^verbatim>\<open>k in v\<close> with a string \<open>k\<close>: a key of a dictionary, an element of a list, a
  substring of a string; any other value is not iterable.\<close>

fun py_in :: "string \<Rightarrow> pyval \<Rightarrow> py_exception + bool" where
  "py_in k (PDict kvs) = Inr (map_of kvs k \<noteq> None)"
| "py_in k (PList xs) = Inr (PStr k \<in> set xs)"
| "py_in k (PStr s) = Inr (str_contains k s)"
| "py_in k v = Inl (TypeError, ''argument of type '' @ sq @ type_name v @ sq @ '' is not iterable'')"

text \<open>
  \<^verbatim>\<open>str(v)\<close>. A string is its own text; every other value is shown by \<^verbatim>\<open>repr\<close>, which
  quotes and escapes the strings inside lists and dictionaries.
\<close>

definition hex_digit :: "nat \<Rightarrow> char" where
  "hex_digit n = ''0123456789abcdef'' ! (n mod 16)"

definition printable :: "char \<Rightarrow> bool" where
  "printable c =
     (let n = (of_char c :: nat) in (32 \<le> n \<and> n < 127) \<or> (161 \<le> n \<and> n \<noteq> 173))"

definition repr_char :: "char \<Rightarrow> char \<Rightarrow> string" where
  "repr_char q c =
     (if c = q \<or> c = CHR 0x5C then [CHR 0x5C, c]
      else if c = CHR 0x09 then [CHR 0x5C, CHR ''t'']
      else if c = CHR 0x0A then [CHR 0x5C, CHR ''n'']
      else if c = CHR 0x0D then [CHR 0x5C, CHR ''r'']
      else if \<not> printable c
        then [CHR 0x5C, CHR ''x'', hex_digit (of_char c div 16), hex_digit (of_char c)]
      else [c])"

definition str_repr :: "string \<Rightarrow> string" where
  "str_repr s =
     (let q = (if CHR 0x27 \<in> set s \<and> CHR 0x22 \<notin> set s then CHR 0x22 else CHR 0x27)
      in [q] @ concat (map (repr_char q) s) @ [q])"

fun nat_digits :: "nat \<Rightarrow> string" where
  "nat_digits n =
     (if n < 10 then [hex_digit n] else nat_digits (n div 10) @ [hex_digit (n mod 10)])"

definition int_repr :: "int \<Rightarrow> string" where
  "int_repr i = (if i < 0 then CHR ''-'' # nat_digits (nat (- i)) else nat_digits (nat i))"

fun join :: "string \<Rightarrow> string list \<Rightarrow> string" where
  "join sep [] = []"
| "join sep [x] = x"
| "join sep (x # y # ys) = x @ sep @ join sep (y # ys)"

fun py_repr :: "pyval \<Rightarrow> string" where
  "py_repr PNone = ''None''"
| "py_repr (PBool b) = (if b then ''True'' else ''False'')"
| "py_repr (PInt i) = int_repr i"
| "py_repr (PFloat nz t) = t"
| "py_repr (PStr s) = str_repr s"
| "py_repr (PList xs) = ''['' @ join '', '' (map py_repr xs) @ '']''"
| "py_repr (PDict kvs) =
     ''{'' @ join '', '' (map (\<lambda>(k, v). str_repr k @ '': '' @ py_repr v) kvs) @ ''}''"

fun py_str :: "pyval \<Rightarrow> string" where
  "py_str (PStr s) = s"
| "py_str v = py_repr v"

section \<open>Identifier extraction\<close>

text \<open>
  \<^verbatim>\<open>re.search(r'(i-[a-z0-9]+)', text)\<close>: the leftmost position where \<^verbatim>\<open>i-\<close> is followed
  by at least one character of \<^verbatim>\<open>[a-z0-9]\<close>; the match takes as many such characters as
  follow.
\<close>

definition lower_alnum :: "char \<Rightarrow> bool" where
  "lower_alnum c =
     (let n = (of_char c :: nat) in (97 \<le> n \<and> n \<le> 122) \<or> (48 \<le> n \<and> n \<le> 57))"

fun match_here :: "string \<Rightarrow> string option" where
  "match_here (a # b # rest) =
     (if a = CHR ''i'' \<and> b = CHR ''-'' \<and> takeWhile lower_alnum rest \<noteq> []
      then Some (''i-'' @ takeWhile lower_alnum rest) else None)"
| "match_here _ = None"

fun re_search_instance :: "string \<Rightarrow> string option" where
  "re_search_instance [] = None"
| "re_search_instance (c # cs) =
     (case match_here (c # cs) of Some m \<Rightarrow> Some m | None \<Rightarrow> re_search_instance cs)"

section \<open>Effects and the environment\<close>

text \<open>
  Everything the module does to the outside is an effect, appended to a trace in the order
  it happens: a log line (level, the format text with \<^verbatim>\<open>{}\<close> where the f-string
  interpolates, and the interpolated values), a call of a collaborator with its arguments,
  or a \<^verbatim>\<open>time.sleep\<close>.
\<close>

datatype level = INFO | WARNING | ERROR

datatype effect =
    Log level string "pyval list"
  | DescribeInstances string
  | RebootInstances string
  | SendCommand string "string list" int
  | GetCommandInvocation pyval string
  | Publish string string pyval
  | Sleep nat

type_synonym trace = "effect list"

text \<open>
  The environment holds the module-level switches read from \<^verbatim>\<open>os.environ\<close> and what the
  program cannot compute itself: the JSON decoder, the clock, and the answer of each
  collaborator, which may depend on everything that has happened so far and is either a
  response or an exception.
\<close>

record env =
  SNS_TOPIC_ARN :: string
  AUTO_HEALING_ENABLED :: bool
  HEALING_ACTION_TIMEOUT :: int
  json_loads :: "string \<Rightarrow> py_exception + pyval"
  utcnow :: "trace \<Rightarrow> string"
  describe_instances :: "trace \<Rightarrow> string \<Rightarrow> py_exception + pyval"
  reboot_instances :: "trace \<Rightarrow> string \<Rightarrow> py_exception + pyval"
  send_command :: "trace \<Rightarrow> string \<Rightarrow> string list \<Rightarrow> int \<Rightarrow> py_exception + pyval"
  get_command_invocation :: "trace \<Rightarrow> pyval \<Rightarrow> string \<Rightarrow> py_exception + pyval"
  sns_publish :: "trace \<Rightarrow> string \<Rightarrow> string \<Rightarrow> pyval \<Rightarrow> py_exception + pyval"

subsection \<open>\<^verbatim>\<open>log_healing_action\<close>\<close>

definition log_healing_action ::
  "env \<Rightarrow> trace \<Rightarrow> string \<Rightarrow> string \<Rightarrow> string \<Rightarrow> pyval \<Rightarrow> pyval \<times> trace" where
  "log_healing_action env tr instance_id action status details =
     (let log_entry = PDict [(''timestamp'', PStr (utcnow env tr)),
                             (''instance_id'', PStr instance_id),
                             (''action'', PStr action),
                             (''status'', PStr status),
                             (''details'', details)]
      in (log_entry, tr @ [Log INFO ''HEALING_ACTION: {}'' [log_entry]]))"

subsection \<open>\<^verbatim>\<open>parse_sns_message\<close>\<close>

text \<open>
  The inner \<^verbatim>\<open>try\<close> catches \<^verbatim>\<open>json.JSONDecodeError\<close> only; the outer one catches every
  exception, logs it and returns the empty dictionary.
\<close>

definition message_field :: "pyval \<Rightarrow> py_exception + pyval" where
  "message_field event =
     and_then (py_get event ''Records'' (PList [PDict []])) (\<lambda>records.
     and_then (py_first records) (\<lambda>record.
     and_then (py_get record ''Sns'' (PDict [])) (\<lambda>sns_message.
     py_get sns_message ''Message'' (PStr ''{}''))))"

definition decode_message :: "env \<Rightarrow> trace \<Rightarrow> pyval \<Rightarrow> (py_exception + pyval) \<times> trace" where
  "decode_message env tr message_str =
     (case message_str of
        PStr s \<Rightarrow>
          (case json_loads env s of
             Inr message \<Rightarrow> (Inr message, tr)
           | Inl e \<Rightarrow>
               if fst e = JSONDecodeError
               then (Inr (PDict [(''raw_message'', PStr s)]),
                     tr @ [Log WARNING ''Could not parse as JSON, treating as plain text: {}'' [PStr s]])
               else (Inl e, tr))
      | _ \<Rightarrow> (Inr message_str, tr))"

definition parse_sns_message :: "env \<Rightarrow> trace \<Rightarrow> pyval \<Rightarrow> pyval \<times> trace" where
  "parse_sns_message env tr event =
     (case message_field event of
        Inl e \<Rightarrow> (PDict [], tr @ [Log ERROR ''Error parsing SNS message: {}'' [PStr (exc_str e)]])
      | Inr message_str \<Rightarrow>
          (case decode_message env tr message_str of
             (Inl e, tr1) \<Rightarrow>
               (PDict [], tr1 @ [Log ERROR ''Error parsing SNS message: {}'' [PStr (exc_str e)]])
           | (Inr message, tr1) \<Rightarrow>
               (message, tr1 @ [Log INFO ''Parsed SNS Message: {}'' [message]])))"

subsection \<open>\<^verbatim>\<open>extract_instance_id\<close>\<close>

fun follow_path :: "pyval \<Rightarrow> string list \<Rightarrow> py_exception + pyval" where
  "follow_path v [] = Inr v"
| "follow_path v (key # keys) =
     (case py_item v key of Inl e \<Rightarrow> Inl e | Inr v' \<Rightarrow> follow_path v' keys)"

text \<open>The test of a candidate:
  \<^verbatim>\<open>value and isinstance(value, str) and value.startswith('i-')\<close>.\<close>

fun accepted :: "pyval \<Rightarrow> bool" where
  "accepted (PStr s) = (py_truthy (PStr s) \<and> startswith s ''i-'')"
| "accepted v = False"

definition paths :: "string list list" where
  "paths = [[''Trigger'', ''Dimensions'', ''InstanceId''], [''instance_id''], [''InstanceId'']]"

text \<open>
  The \<^verbatim>\<open>for path in paths\<close> loop. Its \<^verbatim>\<open>except\<close> clause names three classes; an exception
  of another class would leave the function.
\<close>

fun try_paths ::
  "pyval \<Rightarrow> string list list \<Rightarrow> trace \<Rightarrow> (py_exception + string option) \<times> trace" where
  "try_paths message [] tr = (Inr None, tr)"
| "try_paths message (path # rest) tr =
     (case follow_path message path of
        Inl e \<Rightarrow>
          if fst e = KeyError \<or> fst e = TypeError \<or> fst e = IndexError
          then try_paths message rest tr else (Inl e, tr)
      | Inr v \<Rightarrow>
          if accepted v
          then (Inr (Some (py_str v)),
                tr @ [Log INFO ''Extracted instance ID from path {}: {}'' [PList (map PStr path), v]])
          else try_paths message rest tr)"

definition raw_message_search ::
  "pyval \<Rightarrow> trace \<Rightarrow> (py_exception + string option) \<times> trace" where
  "raw_message_search message tr =
     (case py_in ''raw_message'' message of
        Inl e \<Rightarrow> (Inl e, tr)
      | Inr False \<Rightarrow>
          (Inr None, tr @ [Log WARNING ''Could not extract instance ID from message'' []])
      | Inr True \<Rightarrow>
          (case py_item message ''raw_message'' of
             Inl e \<Rightarrow> (Inl e, tr)
           | Inr raw \<Rightarrow>
               (case re_search_instance (py_str raw) of
                  Some m \<Rightarrow> (Inr (Some m), tr)
                | None \<Rightarrow>
                    (Inr None, tr @ [Log WARNING ''Could not extract instance ID from message'' []]))))"

definition extract_instance_id ::
  "pyval \<Rightarrow> trace \<Rightarrow> (py_exception + string option) \<times> trace" where
  "extract_instance_id message tr =
     (case try_paths message paths tr of
        (Inr None, tr1) \<Rightarrow> raw_message_search message tr1
      | found_or_raised \<Rightarrow> found_or_raised)"

subsection \<open>\<^verbatim>\<open>get_instance_details\<close>\<close>

text \<open>One lookup; every exception is logged and the answer is then \<^verbatim>\<open>None\<close>.\<close>

definition get_instance_details :: "env \<Rightarrow> trace \<Rightarrow> string \<Rightarrow> pyval \<times> trace" where
  "get_instance_details env tr instance_id =
     (let tr1 = tr @ [DescribeInstances instance_id];
          found =
            and_then (describe_instances env tr instance_id) (\<lambda>response.
            and_then (py_item response ''Reservations'') (\<lambda>reservations.
            and_then (py_first reservations) (\<lambda>reservation.
            and_then (py_item reservation ''Instances'') (\<lambda>instances.
            if py_truthy instances then py_first instances else Inr PNone))))
      in case found of
           Inr instance \<Rightarrow> (instance, tr1)
         | Inl e \<Rightarrow>
             (PNone, tr1 @ [Log ERROR ''Error getting instance details for {}: {}''
                                   [PStr instance_id, PStr (exc_str e)]]))"

subsection \<open>\<^verbatim>\<open>execute_reboot_instance\<close>\<close>

definition execute_reboot_instance :: "env \<Rightarrow> trace \<Rightarrow> string \<Rightarrow> bool \<times> trace" where
  "execute_reboot_instance env tr instance_id =
     (if \<not> AUTO_HEALING_ENABLED env
      then (False, tr @ [Log INFO ''Auto-healing disabled, skipping reboot for {}'' [PStr instance_id]])
      else
        (let tr1 = tr @ [Log INFO ''Rebooting instance {}'' [PStr instance_id]];
             tr2 = tr1 @ [RebootInstances instance_id]
         in case reboot_instances env tr1 instance_id of
              Inr _ \<Rightarrow>
                (True, snd (log_healing_action env tr2 instance_id ''reboot'' ''initiated''
                              (PStr ''EC2 instance reboot initiated'')))
            | Inl e \<Rightarrow>
                (False, snd (log_healing_action env
                               (tr2 @ [Log ERROR ''Error rebooting instance {}: {}''
                                         [PStr instance_id, PStr (exc_str e)]])
                               instance_id ''reboot'' ''failed'' (PStr (exc_str e))))))"

subsection \<open>\<^verbatim>\<open>execute_ssm_command\<close>\<close>

definition dq :: string where
  "dq = [CHR 0x22]"

definition diagnostic_script :: "string list" where
  "diagnostic_script =
     [''#!/bin/bash'', ''echo '' @ dq @ ''Running diagnostics...'' @ dq,
      ''df -h'', ''free -m'', ''ps aux --sort=-%cpu | head -20'']"

definition commands :: "(string \<times> string list) list" where
  "commands =
     [(''optimize_cpu'',
        [''#!/bin/bash'', ''set -e'', ''echo '' @ dq @ ''Optimizing CPU...'' @ dq,
         ''killall -9 stress 2>/dev/null || true'', ''sync'']),
      (''clear_cache'',
        [''#!/bin/bash'', ''set -e'', ''echo '' @ dq @ ''Clearing caches...'' @ dq,
         ''sync; echo 3 > /proc/sys/vm/drop_caches'', ''systemctl restart httpd || true'',
         ''systemctl restart nginx || true'']),
      (''cleanup_disk'',
        [''#!/bin/bash'', ''set -e'', ''echo '' @ dq @ ''Cleaning up disk space...'' @ dq,
         ''find /var/log -name '' @ dq @ ''*.log'' @ dq @ '' -mtime +7 -delete 2>/dev/null || true'',
         ''rm -rf /tmp/* 2>/dev/null || true'', ''apt-get clean || yum clean all || true'']),
      (''diagnostic'', diagnostic_script)]"

text \<open>\<^verbatim>\<open>commands.get(action, commands['diagnostic'])\<close>.\<close>

definition command_for :: "string \<Rightarrow> string list" where
  "command_for action =
     (case map_of commands action of Some c \<Rightarrow> c | None \<Rightarrow> diagnostic_script)"

text \<open>
  The status loop, \<^verbatim>\<open>for attempt in range(max_attempts)\<close>, by the number of attempts
  left. \<open>Inr (Some b)\<close> is a \<^verbatim>\<open>return b\<close> from inside the loop, \<open>Inr None\<close> is the
  loop running out, \<open>Inl e\<close> an exception on its way to the function's handler.
\<close>

fun poll ::
  "env \<Rightarrow> trace \<Rightarrow> string \<Rightarrow> string \<Rightarrow> pyval \<Rightarrow> nat \<Rightarrow> (py_exception + bool option) \<times> trace" where
  "poll env tr instance_id action command_id 0 = (Inr None, tr)"
| "poll env tr instance_id action command_id (Suc n) =
     (let tr1 = tr @ [Sleep 3];
          tr2 = tr1 @ [GetCommandInvocation command_id instance_id]
      in case and_then (get_command_invocation env tr1 command_id instance_id)
                (\<lambda>status_response.
                   and_then (py_item status_response ''Status'')
                     (\<lambda>status. Inr (status_response, status))) of
           Inl e \<Rightarrow> (Inl e, tr2)
         | Inr (status_response, status) \<Rightarrow>
             (let tr3 = tr2 @ [Log INFO ''Command {} status: {}'' [command_id, status]]
              in if status = PStr ''Success'' \<or> status = PStr ''Failed''
                 then
                   if status = PStr ''Success''
                   then (Inr (Some True),
                         snd (log_healing_action env tr3 instance_id (''ssm_'' @ action)
                                ''completed'' (PStr ''SSM command completed successfully'')))
                   else
                     (case py_get status_response ''StandardErrorContent'' (PStr ''Unknown error'') of
                        Inl e \<Rightarrow> (Inl e, tr3)
                      | Inr error_msg \<Rightarrow>
                          (Inr (Some False),
                           snd (log_healing_action env tr3 instance_id (''ssm_'' @ action)
                                  ''failed'' error_msg)))
                 else poll env tr3 instance_id action command_id n))"

definition max_attempts :: nat where
  "max_attempts = 10"

text \<open>The function's \<^verbatim>\<open>except Exception\<close> handler.\<close>

definition ssm_failed :: "env \<Rightarrow> trace \<Rightarrow> string \<Rightarrow> string \<Rightarrow> py_exception \<Rightarrow> bool \<times> trace" where
  "ssm_failed env tr instance_id action e =
     (False,
      snd (log_healing_action env
             (tr @ [Log ERROR ''Error executing SSM command on {}: {}''
                      [PStr instance_id, PStr (exc_str e)]])
             instance_id (''ssm_'' @ action) ''failed'' (PStr (exc_str e))))"

text \<open>The request \<^verbatim>\<open>send_command\<close> and the read of
  \<^verbatim>\<open>response['Command']['CommandId']\<close>.\<close>

definition send_and_read_id ::
  "env \<Rightarrow> trace \<Rightarrow> string \<Rightarrow> string list \<Rightarrow> py_exception + pyval" where
  "send_and_read_id env tr instance_id command =
     and_then (send_command env tr instance_id command (HEALING_ACTION_TIMEOUT env))
       (\<lambda>response. and_then (py_item response ''Command'') (\<lambda>c. py_item c ''CommandId''))"

text \<open>What follows the two checks of the instance: dispatch, then the status loop.\<close>

definition dispatch_and_wait :: "env \<Rightarrow> trace \<Rightarrow> string \<Rightarrow> string \<Rightarrow> bool \<times> trace" where
  "dispatch_and_wait env tr instance_id action =
     (let command = command_for action;
          tr1 = tr @ [Log INFO ''Executing SSM command: {} on instance {}''
                        [PStr action, PStr instance_id]];
          tr2 = tr1 @ [SendCommand instance_id command (HEALING_ACTION_TIMEOUT env)]
      in case send_and_read_id env tr1 instance_id command of
           Inl e \<Rightarrow> ssm_failed env tr2 instance_id action e
         | Inr command_id \<Rightarrow>
             (let tr3 = tr2 @ [Log INFO ''SSM command {} sent to instance {}''
                                 [command_id, PStr instance_id]];
                  tr4 = snd (log_healing_action env tr3 instance_id (''ssm_'' @ action)
                               ''initiated'' (PStr (''Command ID: '' @ py_str command_id)))
              in case poll env tr4 instance_id action command_id max_attempts of
                   (Inl e, tr5) \<Rightarrow> ssm_failed env tr5 instance_id action e
                 | (Inr (Some result), tr5) \<Rightarrow> (result, tr5)
                 | (Inr None, tr5) \<Rightarrow>
                     (False, tr5 @ [Log WARNING ''Command {} did not complete within timeout period''
                                      [command_id]])))"

definition execute_ssm_command :: "env \<Rightarrow> trace \<Rightarrow> string \<Rightarrow> string \<Rightarrow> bool \<times> trace" where
  "execute_ssm_command env tr instance_id action =
     (if \<not> AUTO_HEALING_ENABLED env
      then (False, tr @ [Log INFO ''Auto-healing disabled, skipping SSM command for {}''
                           [PStr instance_id]])
      else
        (case get_instance_details env tr instance_id of
           (instance, tr1) \<Rightarrow>
             if \<not> py_truthy instance
             then (False, tr1 @ [Log ERROR ''Instance {} not found'' [PStr instance_id]])
             else
               (case and_then (py_item instance ''State'') (\<lambda>state. py_item state ''Name'') of
                  Inl e \<Rightarrow> ssm_failed env tr1 instance_id action e
                | Inr name \<Rightarrow>
                    if name \<noteq> PStr ''running''
                    then (False, tr1 @ [Log WARNING
                            ''Instance {} is not running, cannot execute SSM command''
                            [PStr instance_id]])
                    else dispatch_and_wait env tr1 instance_id action)))"

subsection \<open>\<^verbatim>\<open>publish_healing_result\<close>\<close>

definition publish_healing_result ::
  "env \<Rightarrow> trace \<Rightarrow> string \<Rightarrow> string \<Rightarrow> bool \<Rightarrow> pyval \<Rightarrow> trace" where
  "publish_healing_result env tr instance_id action success details =
     (if SNS_TOPIC_ARN env = []
      then tr @ [Log WARNING ''SNS topic ARN not configured, skipping notification'' []]
      else
        (let message = PDict [(''healing_action'', PStr action),
                              (''instance_id'', PStr instance_id),
                              (''status'', PStr (if success then ''success'' else ''failed'')),
                              (''timestamp'', PStr (utcnow env tr)),
                              (''details'', details)];
             subject = ''Auto-Heal: '' @ action @ '' - '' @ instance_id;
             tr1 = tr @ [Publish (SNS_TOPIC_ARN env) subject message]
         in case sns_publish env tr (SNS_TOPIC_ARN env) subject message of
              Inr _ \<Rightarrow> tr1 @ [Log INFO ''Published healing result to SNS: {}'' [message]]
            | Inl e \<Rightarrow> tr1 @ [Log ERROR ''Error publishing to SNS: {}'' [PStr (exc_str e)]]))"

subsection \<open>\<^verbatim>\<open>lambda_handler\<close>\<close>

text \<open>
  The response envelope; \<open>body\<close> is the dictionary handed to \<^verbatim>\<open>json.dumps\<close>. The
  \<^verbatim>\<open>context\<close> argument is never read and is left out.
\<close>

record response =
  statusCode :: int
  body :: pyval

text \<open>The handler's choice between the two executors.\<close>

definition execute_action :: "env \<Rightarrow> trace \<Rightarrow> string \<Rightarrow> string \<Rightarrow> bool \<times> trace" where
  "execute_action env tr instance_id action =
     (if action = ''reboot'' then execute_reboot_instance env tr instance_id
      else execute_ssm_command env tr instance_id action)"

text \<open>The steps after the instance has been found, inside the handler's \<^verbatim>\<open>try\<close>.\<close>

definition heal ::
  "env \<Rightarrow> trace \<Rightarrow> pyval \<Rightarrow> string \<Rightarrow> pyval \<Rightarrow> (py_exception + response) \<times> trace" where
  "heal env tr message instance_id instance =
     (case and_then (py_item instance ''State'') (\<lambda>state. py_item state ''Name'') of
        Inl e \<Rightarrow> (Inl e, tr)
      | Inr state_name \<Rightarrow>
          (let tr1 = tr @ [Log INFO ''Instance state: {}'' [state_name]]
           in case determine_healing_action message instance_id of
                Inl e \<Rightarrow> (Inl e, tr1)
              | Inr action \<Rightarrow>
                  (let tr2 = tr1 @ [Log INFO ''Determined healing action: {}'' [PStr action]];
                       executed = execute_action env tr2 instance_id action;
                       success = fst executed;
                       tr3 = snd executed
                   in case py_get message ''AlarmDescription'' (PStr []) of
                        Inl e \<Rightarrow> (Inl e, tr3)
                      | Inr description \<Rightarrow>
                          (let tr4 = publish_healing_result env tr3 instance_id action success
                                       description
                           in (Inr \<lparr>statusCode = (if success then 200 else 500),
                                     body = PDict
                                       [(''instance_id'', PStr instance_id),
                                        (''action'', PStr action),
                                        (''status'',
                                           PStr (if success then ''completed'' else ''failed'')),
                                        (''timestamp'', PStr (utcnow env tr4))]\<rparr>,
                               tr4)))))"

definition lambda_handler_try ::
  "env \<Rightarrow> trace \<Rightarrow> pyval \<Rightarrow> (py_exception + response) \<times> trace" where
  "lambda_handler_try env tr event =
     (case parse_sns_message env tr event of
        (message, tr1) \<Rightarrow>
          (case extract_instance_id message tr1 of
             (Inl e, tr2) \<Rightarrow> (Inl e, tr2)
           | (Inr None, tr2) \<Rightarrow>
               (Inr \<lparr>statusCode = 400,
                     body = PDict [(''error'', PStr ''Could not extract instance ID from alert'')]\<rparr>,
                tr2 @ [Log WARNING ''No instance ID found in alert'' []])
           | (Inr (Some instance_id), tr2) \<Rightarrow>
               (let tr3 = tr2 @ [Log INFO ''Processing alert for instance: {}'' [PStr instance_id]]
                in case get_instance_details env tr3 instance_id of
                     (instance, tr4) \<Rightarrow>
                       if \<not> py_truthy instance
                       then (Inr \<lparr>statusCode = 404,
                                  body = PDict [(''error'',
                                     PStr (''Instance '' @ instance_id @ '' not found''))]\<rparr>,
                             tr4 @ [Log ERROR ''Instance {} not found or inaccessible''
                                      [PStr instance_id]])
                       else heal env tr4 message instance_id instance)))"

definition lambda_handler :: "env \<Rightarrow> trace \<Rightarrow> pyval \<Rightarrow> response \<times> trace" where
  "lambda_handler env tr event =
     (case lambda_handler_try env (tr @ [Log INFO ''Lambda invoked with event: {}'' [event]]) event of
        (Inr r, tr1) \<Rightarrow> (r, tr1)
      | (Inl e, tr1) \<Rightarrow>
          (\<lparr>statusCode = 500,
            body = PDict [(''error'', PStr (''Lambda execution failed: '' @ exc_str e))]\<rparr>,
           tr1 @ [Log ERROR ''Unhandled exception in Lambda handler: {}'' [PStr (exc_str e)]]))"

section \<open>Observing a trace\<close>

text \<open>
  An audit entry is a line written by \<^verbatim>\<open>log_healing_action\<close>. A collaborator call is a
  request to the compute-management, command-execution or notification service.
\<close>

fun is_audit :: "effect \<Rightarrow> bool" where
  "is_audit (Log l text args) = (l = INFO \<and> text = ''HEALING_ACTION: {}'')"
| "is_audit _ = False"

fun is_call :: "effect \<Rightarrow> bool" where
  "is_call (Log l text args) = False"
| "is_call (Sleep n) = False"
| "is_call _ = True"

fun is_dispatch :: "effect \<Rightarrow> bool" where
  "is_dispatch (SendCommand i c t) = True"
| "is_dispatch _ = False"

fun is_poll :: "effect \<Rightarrow> bool" where
  "is_poll (GetCommandInvocation c i) = True"
| "is_poll _ = False"

fun is_publish :: "effect \<Rightarrow> bool" where
  "is_publish (Publish t s m) = True"
| "is_publish _ = False"

text \<open>The time slept, and the numbers of status requests and of dispatches, in a trace.\<close>

fun slept :: "trace \<Rightarrow> nat" where
  "slept [] = 0"
| "slept (Sleep n # tr) = n + slept tr"
| "slept (_ # tr) = slept tr"

definition polls :: "trace \<Rightarrow> nat" where
  "polls tr = length (filter is_poll tr)"

definition dispatches :: "trace \<Rightarrow> nat" where
  "dispatches tr = length (filter is_dispatch tr)"

text \<open>
  What a step of the executor may add to a trace: the old trace is kept, at most \<open>n\<close>
  status requests are added, and three units of time are slept for each of them.
\<close>

definition adds :: "trace \<Rightarrow> trace \<Rightarrow> nat \<Rightarrow> bool" where
  "adds tr tr' n \<longleftrightarrow>
     prefix tr tr' \<and> polls tr \<le> polls tr' \<and> polls tr' \<le> polls tr + n
     \<and> slept tr' + 3 * polls tr = slept tr + 3 * polls tr'"

section \<open>What the status loop observes\<close>

text \<open>
  The status that a request made after the trace \<open>tr\<close> sees: the loop sleeps, asks, and
  reads \<^verbatim>\<open>status_response['Status']\<close>.
\<close>

definition status_seen :: "env \<Rightarrow> trace \<Rightarrow> pyval \<Rightarrow> string \<Rightarrow> py_exception + pyval" where
  "status_seen env tr command_id instance_id =
     and_then (get_command_invocation env (tr @ [Sleep 3]) command_id instance_id)
       (\<lambda>status_response. py_item status_response ''Status'')"

text \<open>
  The trace after \<open>k\<close> requests made from \<open>tr\<close> on, provided each of them saw a status
  other than \<^verbatim>\<open>Success\<close> and \<^verbatim>\<open>Failed\<close>; \<open>None\<close> when one of them saw one of the two
  or raised.
\<close>

fun after_pending :: "env \<Rightarrow> trace \<Rightarrow> pyval \<Rightarrow> string \<Rightarrow> nat \<Rightarrow> trace option" where
  "after_pending env tr command_id instance_id 0 = Some tr"
| "after_pending env tr command_id instance_id (Suc k) =
     (case status_seen env tr command_id instance_id of
        Inl e \<Rightarrow> None
      | Inr status \<Rightarrow>
          if status = PStr ''Success'' \<or> status = PStr ''Failed'' then None
          else after_pending env
                 (tr @ [Sleep 3, GetCommandInvocation command_id instance_id,
                        Log INFO ''Command {} status: {}'' [command_id, status]])
                 command_id instance_id k)"

section \<open>The rules and the strategies as ordered lists\<close>



definition actions :: "string list" where
  "actions = [''reboot'', ''optimize_cpu'', ''clear_cache'', ''cleanup_disk'', ''diagnostic'']"

text \<open>
  The alert shape the classification reads without raising: a dictionary whose
  \<^verbatim>\<open>AlarmName\<close>, when there is one, is a string, and whose \<^verbatim>\<open>Trigger\<close>, when there
  is one, is a dictionary whose \<^verbatim>\<open>MetricName\<close>, when there is one, is a string.
\<close>

fun str_or_absent :: "pyval option \<Rightarrow> bool" where
  "str_or_absent None = True"
| "str_or_absent (Some (PStr s)) = True"
| "str_or_absent (Some v) = False"

fun well_typed_trigger :: "pyval option \<Rightarrow> bool" where
  "well_typed_trigger None = True"
| "well_typed_trigger (Some (PDict t)) = str_or_absent (map_of t ''MetricName'')"
| "well_typed_trigger (Some v) = False"

fun well_typed_alert :: "pyval \<Rightarrow> bool" where
  "well_typed_alert (PDict kvs) =
     (str_or_absent (map_of kvs ''AlarmName'') \<and> well_typed_trigger (map_of kvs ''Trigger''))"
| "well_typed_alert v = False"




fun is_dict :: "pyval \<Rightarrow> bool" where
  "is_dict (PDict kvs) = True"
| "is_dict v = False"

text \<open>
  The extraction as the specification words it: each structured path offers a candidate
  when the value found there passes the test, and the first path in the list that offers
  one decides.
\<close>

definition candidate_at :: "pyval \<Rightarrow> string list \<Rightarrow> string option" where
  "candidate_at message path =
     (case follow_path message path of
        Inr v \<Rightarrow> if accepted v then Some (py_str v) else None
      | Inl e \<Rightarrow> None)"

fun first_candidate :: "pyval \<Rightarrow> string list list \<Rightarrow> string option" where
  "first_candidate message [] = None"
| "first_candidate message (path # rest) =
     (case candidate_at message path of
        Some v \<Rightarrow> Some v
      | None \<Rightarrow> first_candidate message rest)"

text \<open>The lexical form the raw-text search can produce.\<close>

definition regex_form :: "string \<Rightarrow> bool" where
  "regex_form v = (startswith v ''i-'' \<and> drop 2 v \<noteq> [] \<and> list_all lower_alnum (drop 2 v))"

text \<open>Whether the instance that \<^verbatim>\<open>get_instance_details\<close> returns now is there and running.\<close>

definition running_now :: "env \<Rightarrow> trace \<Rightarrow> string \<Rightarrow> bool" where
  "running_now env tr instance_id =
     (let instance = fst (get_instance_details env tr instance_id)
      in py_truthy instance \<and>
         and_then (py_item instance ''State'') (\<lambda>state. py_item state ''Name'')
           = Inr (PStr ''running''))"

text \<open>
  Where the status loop starts. When the switch is on, the instance is there and running,
  and the dispatch gave a command identifier, the loop starts with that identifier at the
  trace that ends with the audit entry of the dispatch.
\<close>

definition dispatch_trace :: "env \<Rightarrow> trace \<Rightarrow> string \<Rightarrow> string \<Rightarrow> trace" where
  "dispatch_trace env tr instance_id action =
     snd (get_instance_details env tr instance_id)
       @ [Log INFO ''Executing SSM command: {} on instance {}'' [PStr action, PStr instance_id]]"

definition polling_start :: "env \<Rightarrow> trace \<Rightarrow> string \<Rightarrow> string \<Rightarrow> (pyval \<times> trace) option" where
  "polling_start env tr instance_id action =
     (if AUTO_HEALING_ENABLED env \<and> running_now env tr instance_id
      then
        (case send_and_read_id env (dispatch_trace env tr instance_id action) instance_id
                (command_for action) of
           Inl e \<Rightarrow> None
         | Inr command_id \<Rightarrow>
             Some (command_id,
                   snd (log_healing_action env
                          (dispatch_trace env tr instance_id action
                             @ [SendCommand instance_id (command_for action)
                                  (HEALING_ACTION_TIMEOUT env),
                                Log INFO ''SSM command {} sent to instance {}''
                                  [command_id, PStr instance_id]])
                          instance_id (''ssm_'' @ action) ''initiated''
                          (PStr (''Command ID: '' @ py_str command_id)))))
      else None)"

text \<open>
  A well-formed response envelope: one of the four status codes and a body that is a
  dictionary with at least one field.
\<close>

definition well_formed :: "response \<Rightarrow> bool" where
  "well_formed r \<longleftrightarrow>
     statusCode r \<in> {200, 400, 404, 500}
     \<and> (case body r of PDict kvs \<Rightarrow> kvs \<noteq> [] | _ \<Rightarrow> False)"

section \<open>Sample environments and inputs\<close>

text \<open>
  An environment for the examples: the instance asked for exists and is running, every
  request is accepted, and a dispatched command stays pending. Its decoder agrees with
  \<^verbatim>\<open>json.loads\<close> on the message strings the examples use: \<^verbatim>\<open>{}\<close>, \<^verbatim>\<open>42\<close> and a
  line of plain text.
\<close>

definition running_instance :: "string \<Rightarrow> pyval" where
  "running_instance instance_id =
     PDict [(''InstanceId'', PStr instance_id), (''State'', PDict [(''Name'', PStr ''running'')])]"

definition sample_env :: env where
  "sample_env =
     \<lparr>SNS_TOPIC_ARN = ''arn:aws:sns:us-east-1:123456789012:auto-heal'',
      AUTO_HEALING_ENABLED = True,
      HEALING_ACTION_TIMEOUT = 300,
      json_loads = (\<lambda>s. if s = ''{}'' then Inr (PDict [])
                         else if s = ''42'' then Inr (PInt 42)
                         else Inl (JSONDecodeError, ''Expecting value: line 1 column 1 (char 0)'')),
      utcnow = (\<lambda>tr. ''2024-01-01T00:00:00''),
      describe_instances = (\<lambda>tr instance_id.
         Inr (PDict [(''Reservations'',
                PList [PDict [(''Instances'', PList [running_instance instance_id])]])])),
      reboot_instances = (\<lambda>tr instance_id. Inr (PDict [])),
      send_command = (\<lambda>tr instance_id command timeout.
         Inr (PDict [(''Command'', PDict [(''CommandId'', PStr ''cmd-1'')])])),
      get_command_invocation = (\<lambda>tr command_id instance_id.
         Inr (PDict [(''Status'', PStr ''Pending'')])),
      sns_publish = (\<lambda>tr topic subject message. Inr (PDict [(''MessageId'', PStr ''m-1'')]))\<rparr>"

definition disabled_env :: env where
  "disabled_env = sample_env\<lparr>AUTO_HEALING_ENABLED := False\<rparr>"

definition no_topic_env :: env where
  "no_topic_env = sample_env\<lparr>SNS_TOPIC_ARN := []\<rparr>"

definition stopped_env :: env where
  "stopped_env = sample_env\<lparr>describe_instances := (\<lambda>tr instance_id.
     Inr (PDict [(''Reservations'', PList [PDict [(''Instances'',
            PList [PDict [(''State'', PDict [(''Name'', PStr ''stopped'')])]])]])]))\<rparr>"

definition succeeding_env :: env where
  "succeeding_env = sample_env\<lparr>get_command_invocation := (\<lambda>tr command_id instance_id.
     Inr (PDict [(''Status'', PStr ''Success'')]))\<rparr>"

definition missing_env :: env where
  "missing_env = sample_env\<lparr>describe_instances := (\<lambda>tr instance_id.
     Inl (OtherError, ''An error occurred (InvalidInstanceID.NotFound) when calling the ''
                        @ ''DescribeInstances operation''))\<rparr>"

definition failing_env :: env where
  "failing_env = sample_env\<lparr>get_command_invocation := (\<lambda>tr command_id instance_id.
     Inr (PDict [(''Status'', PStr ''Failed''), (''StandardErrorContent'', PStr ''disk full'')]))\<rparr>"

text \<open>
  A command that is pending for the first three requests and then succeeds, and one that
  is pending for the first ten and succeeds after that.
\<close>

definition slow_env :: env where
  "slow_env = sample_env\<lparr>get_command_invocation := (\<lambda>tr command_id instance_id.
     Inr (PDict [(''Status'', PStr (if polls tr < 3 then ''Pending'' else ''Success''))]))\<rparr>"

definition late_env :: env where
  "late_env = sample_env\<lparr>get_command_invocation := (\<lambda>tr command_id instance_id.
     Inr (PDict [(''Status'', PStr (if polls tr < 10 then ''Pending'' else ''Success''))]))\<rparr>"

text \<open>
  A decoder that, like \<^verbatim>\<open>json.loads\<close> under the interpreter's limit of 4300 digits, raises
  \<^verbatim>\<open>ValueError\<close> on the number written with five thousand digits.
\<close>

definition long_number :: string where
  "long_number = replicate 5000 (CHR ''1'')"

definition digit_limit_env :: env where
  "digit_limit_env = sample_env\<lparr>json_loads := (\<lambda>s.
     if s = long_number
     then Inl (ValueError,
               ''Exceeds the limit (4300 digits) for integer string conversion: ''
                 @ ''value has 5000 digits; use sys.set_int_max_str_digits() to increase the limit'')
     else json_loads sample_env s)\<rparr>"

definition sns_event :: "pyval \<Rightarrow> pyval" where
  "sns_event message = PDict [(''Records'', PList [PDict [(''Sns'', PDict [(''Message'', message)])]])]"

text \<open>Five events: the scenarios of the specification and a message that is a number.\<close>

definition status_alarm_event :: pyval where
  "status_alarm_event =
     sns_event (PDict [(''Trigger'', PDict [(''MetricName'', PStr ''StatusCheckFailed''),
                        (''Dimensions'', PDict [(''InstanceId'', PStr ''i-0abc123'')])])])"

definition memory_alarm_event :: pyval where
  "memory_alarm_event =
     sns_event (PDict [(''AlarmName'', PStr ''high-memory''), (''InstanceId'', PStr ''i-0abc123'')])"

definition plain_text_event :: pyval where
  "plain_text_event = sns_event (PStr ''server down'')"

definition unknown_instance_event :: pyval where
  "unknown_instance_event = sns_event (PDict [(''InstanceId'', PStr ''i-0def456'')])"

definition number_event :: pyval where
  "number_event = sns_event (PInt 3)"

section \<open>Facts about the string operations\<close>



section \<open>Classification: the priority order\<close>







section \<open>Classification: where it returns\<close>

lemma healing_rules_closed: "healing_rules a m \<in> set actions"
  by (simp add: healing_rules_def actions_def)

lemma py_lower_cases:
  "(\<exists>s. v = PStr s \<and> py_lower v = Inr (str_lower s))
   \<or> ((\<forall>s. v \<noteq> PStr s) \<and> py_lower v = Inl (attribute_error v ''lower''))"
  by (cases v) auto

lemma alarm_name_of_cases:
  "(str_or_absent (map_of kvs ''AlarmName'') \<longrightarrow> (\<exists>a. alarm_name_of (PDict kvs) = Inr a))
   \<and> (\<not> str_or_absent (map_of kvs ''AlarmName'')
        \<longrightarrow> (\<exists>t. alarm_name_of (PDict kvs) = Inl (AttributeError, t)))"
proof (cases "map_of kvs ''AlarmName''")
  case None
  then show ?thesis by (simp add: alarm_name_of_def)
next
  case (Some v)
  then show ?thesis
    by (cases v) (simp_all add: alarm_name_of_def attribute_error_def)
qed

lemma metric_name_of_cases:
  "(well_typed_trigger (map_of kvs ''Trigger'') \<longrightarrow> (\<exists>m. metric_name_of (PDict kvs) = Inr m))
   \<and> (\<not> well_typed_trigger (map_of kvs ''Trigger'')
        \<longrightarrow> (\<exists>t. metric_name_of (PDict kvs) = Inl (AttributeError, t)))"
proof (cases "map_of kvs ''Trigger''")
  case None
  then show ?thesis by (simp add: metric_name_of_def)
next
  case (Some trigger)
  show ?thesis
  proof (cases trigger)
    case (PDict t)
    show ?thesis
    proof (cases "map_of t ''MetricName''")
      case None
      with Some PDict show ?thesis by (simp add: metric_name_of_def)
    next
      case inner: (Some v)
      with Some PDict show ?thesis
        by (cases v) (simp_all add: metric_name_of_def attribute_error_def)
    qed
  qed (use Some in \<open>simp_all add: metric_name_of_def attribute_error_def\<close>)
qed

text \<open>
  Claim C8, as amended. \<^verbatim>\<open>determine_healing_action\<close> is a function of its arguments alone
  (no effect, no collaborator), so equal inputs give equal results. It returns one of the
  five actions exactly when the message is a dictionary whose \<^verbatim>\<open>AlarmName\<close>, if present,
  is a string and whose \<^verbatim>\<open>Trigger\<close>, if present, is a dictionary whose \<^verbatim>\<open>MetricName\<close>,
  if present, is a string. On every other message it raises \<^verbatim>\<open>AttributeError\<close>.
\<close>

theorem determine_healing_action_total_on_well_typed:
  "(well_typed_alert message
      \<longrightarrow> (\<exists>a \<in> set actions. determine_healing_action message instance_id = Inr a))
   \<and> (\<not> well_typed_alert message
      \<longrightarrow> (\<exists>t. determine_healing_action message instance_id = Inl (AttributeError, t)))"
proof (cases message)
  case (PDict kvs)
  show ?thesis
  proof (cases "str_or_absent (map_of kvs ''AlarmName'')")
    case False
    then obtain t where "alarm_name_of (PDict kvs) = Inl (AttributeError, t)"
      using alarm_name_of_cases by blast
    with False PDict show ?thesis by (simp add: determine_healing_action_def)
  next
    case True
    then obtain a where a: "alarm_name_of (PDict kvs) = Inr a"
      using alarm_name_of_cases by blast
    show ?thesis
    proof (cases "well_typed_trigger (map_of kvs ''Trigger'')")
      case False
      then obtain t where "metric_name_of (PDict kvs) = Inl (AttributeError, t)"
        using metric_name_of_cases by blast
      with False a PDict show ?thesis by (simp add: determine_healing_action_def)
    next
      case wt: True
      then obtain m where "metric_name_of (PDict kvs) = Inr m"
        using metric_name_of_cases by blast
      with True wt a PDict show ?thesis
        by (simp add: determine_healing_action_def healing_rules_closed)
    qed
  qed
qed (simp_all add: determine_healing_action_def alarm_name_of_def attribute_error_def)

theorem determine_healing_action_total_on_well_typed_witness:
  "well_typed_alert (PDict [(''Trigger'', PDict [(''MetricName'', PStr ''DiskUtilization'')])])
   \<and> (\<exists>a \<in> set actions.
        determine_healing_action
          (PDict [(''Trigger'', PDict [(''MetricName'', PStr ''DiskUtilization'')])]) ''i-0abc123''
        = Inr a)
   \<and> \<not> well_typed_alert (PDict [(''AlarmName'', PStr ''cpu-high''), (''Trigger'', PNone)])
   \<and> (\<exists>t. determine_healing_action
              (PDict [(''AlarmName'', PStr ''cpu-high''), (''Trigger'', PNone)]) ''i-0abc123''
            = Inl (AttributeError, t))"
proof -
  have w: "well_typed_alert (PDict [(''Trigger'', PDict [(''MetricName'', PStr ''DiskUtilization'')])])"
    by simp
  have n: "\<not> well_typed_alert (PDict [(''AlarmName'', PStr ''cpu-high''), (''Trigger'', PNone)])"
    by simp
  from w n
    determine_healing_action_total_on_well_typed
      [of "PDict [(''Trigger'', PDict [(''MetricName'', PStr ''DiskUtilization'')])]" "''i-0abc123''"]
    determine_healing_action_total_on_well_typed
      [of "PDict [(''AlarmName'', PStr ''cpu-high''), (''Trigger'', PNone)]" "''i-0abc123''"]
  show ?thesis by blast
qed

text \<open>
  Claim C8 as stated fails: on the message \<^verbatim>\<open>{"AlarmName": 5}\<close> the call of
  \<^verbatim>\<open>.lower()\<close> on the integer raises, and no action is returned.
\<close>

theorem determine_healing_action_raises_counterexample:
  "determine_healing_action (PDict [(''AlarmName'', PInt 5)]) ''i-0abc123''
     = Inl (AttributeError, sq @ ''int'' @ sq @ '' object has no attribute '' @ sq @ ''lower'' @ sq)"
  by (simp add: determine_healing_action_def alarm_name_of_def attribute_error_def)

section \<open>Identifier extraction: the order of the strategies\<close>

lemma follow_path_class:
  "follow_path v path = Inl e \<Longrightarrow> fst e = KeyError \<or> fst e = TypeError"
proof (induction path arbitrary: v)
  case Nil
  then show ?case by simp
next
  case (Cons key keys)
  show ?case
  proof (cases "py_item v key")
    case (Inl e')
    with Cons.prems have "e' = e" by simp
    with Inl show ?thesis
      by (cases v) (auto simp: not_subscriptable_def split: option.splits)
  next
    case (Inr v')
    with Cons show ?thesis by simp
  qed
qed

text \<open>The loop over the paths never raises, and returns the first candidate offered.\<close>

lemma try_paths_first:
  "fst (try_paths message ps tr) = Inr (first_candidate message ps)"
proof (induction ps arbitrary: tr)
  case Nil
  then show ?case by simp
next
  case (Cons path rest)
  show ?case
  proof (cases "follow_path message path")
    case (Inl e)
    then have "fst e = KeyError \<or> fst e = TypeError" by (rule follow_path_class)
    with Inl Cons.IH show ?thesis by (auto simp: candidate_at_def)
  next
    case (Inr v)
    with Cons.IH show ?thesis by (auto simp: candidate_at_def)
  qed
qed

lemma try_paths_none_trace:
  "fst (try_paths message ps tr) = Inr None \<Longrightarrow> snd (try_paths message ps tr) = tr"
proof (induction ps arbitrary: tr)
  case Nil
  then show ?case by simp
next
  case (Cons path rest)
  then show ?case
    by (cases "follow_path message path") (auto split: if_splits)
qed

lemma raw_message_search_dict:
  "fst (raw_message_search (PDict kvs) tr)
     = Inr (case map_of kvs ''raw_message'' of None \<Rightarrow> None
            | Some raw \<Rightarrow> re_search_instance (py_str raw))"
  by (cases "map_of kvs ''raw_message''")
     (auto simp: raw_message_search_def split: option.splits)

lemma extract_instance_id_dict:
  "fst (extract_instance_id (PDict kvs) tr)
     = Inr (case first_candidate (PDict kvs) paths of
              Some v \<Rightarrow> Some v
            | None \<Rightarrow>
                (case map_of kvs ''raw_message'' of None \<Rightarrow> None
                 | Some raw \<Rightarrow> re_search_instance (py_str raw)))"
proof -
  let ?c = "first_candidate (PDict kvs) paths"
  have t: "fst (try_paths (PDict kvs) paths tr) = Inr ?c"
    by (rule try_paths_first)
  show ?thesis
  proof (cases ?c)
    case None
    with t try_paths_none_trace [of "PDict kvs" paths tr]
    have "try_paths (PDict kvs) paths tr = (Inr None, tr)"
      by (metis prod.collapse)
    with None show ?thesis
      by (simp add: extract_instance_id_def raw_message_search_dict)
  next
    case (Some v)
    with t obtain tr1 where "try_paths (PDict kvs) paths tr = (Inr (Some v), tr1)"
      by (metis prod.collapse)
    with Some show ?thesis by (simp add: extract_instance_id_def)
  qed
qed

lemma accepted_prefix: "startswith v ''i-'' \<Longrightarrow> accepted (PStr v)"
  by (auto simp: startswith_def)

lemma py_item_non_dict: "\<not> is_dict v \<Longrightarrow> \<exists>t. py_item v k = Inl (TypeError, t)"
  by (cases v) (simp_all add: not_subscriptable_def)

lemma candidate_at_non_dict:
  assumes "\<not> is_dict message" "path \<noteq> []"
  shows "candidate_at message path = None"
proof -
  obtain key keys where p: "path = key # keys" using assms(2) by (cases path) auto
  obtain t where "py_item message key = Inl (TypeError, t)"
    using py_item_non_dict [OF assms(1)] by blast
  with p show ?thesis by (simp add: candidate_at_def)
qed

lemma first_candidate_non_dict: "\<not> is_dict message \<Longrightarrow> first_candidate message paths = None"
  by (simp add: paths_def candidate_at_non_dict)

lemma extract_instance_id_non_dict:
  assumes "\<not> is_dict message"
  shows "fst (extract_instance_id message tr) = fst (raw_message_search message tr)"
proof -
  have "fst (try_paths message paths tr) = Inr None"
    using try_paths_first [of message paths tr] first_candidate_non_dict [OF assms] by simp
  moreover from this have "snd (try_paths message paths tr) = tr"
    by (rule try_paths_none_trace)
  ultimately have "try_paths message paths tr = (Inr None, tr)"
    by (simp add: prod_eq_iff)
  then show ?thesis by (simp add: extract_instance_id_def)
qed

lemma raw_message_search_non_dict:
  assumes "\<not> is_dict message"
  shows "(py_in ''raw_message'' message = Inr False
            \<longrightarrow> fst (raw_message_search message tr) = Inr None)
         \<and> (py_in ''raw_message'' message \<noteq> Inr False
            \<longrightarrow> (\<exists>t. fst (raw_message_search message tr) = Inl (TypeError, t)))"
proof (cases "py_in ''raw_message'' message")
  case (Inl e)
  with assms have "fst e = TypeError" by (cases message) auto
  with Inl show ?thesis by (cases e) (simp add: raw_message_search_def)
next
  case (Inr b)
  show ?thesis
  proof (cases b)
    case False
    with Inr show ?thesis by (simp add: raw_message_search_def)
  next
    case True
    obtain t where "py_item message ''raw_message'' = Inl (TypeError, t)"
      using py_item_non_dict [OF assms] by blast
    with Inr True show ?thesis by (simp add: raw_message_search_def)
  qed
qed

text \<open>
  Claim C3, as amended. On a message that is a dictionary, \<^verbatim>\<open>extract_instance_id\<close> never
  raises. It returns the candidate of the first structured path that offers one, the paths
  being tried in the order \<^verbatim>\<open>Trigger.Dimensions.InstanceId\<close>, \<^verbatim>\<open>instance_id\<close>,
  \<^verbatim>\<open>InstanceId\<close>; when none does, the match of the pattern in the text of
  \<^verbatim>\<open>raw_message\<close>, if that field is there; and \<^verbatim>\<open>None\<close> otherwise. So a string starting
  with \<^verbatim>\<open>i-\<close> at the nested path is the result whatever the raw text holds. On a message
  that is not a dictionary the function returns \<^verbatim>\<open>None\<close> when the test
  \<^verbatim>\<open>'raw_message' in message\<close> is false, and raises \<^verbatim>\<open>TypeError\<close> in every other case.
\<close>

theorem extract_instance_id_strategies:
  "(message = PDict kvs \<longrightarrow>
      fst (extract_instance_id message tr)
        = Inr (case first_candidate message
                      [[''Trigger'', ''Dimensions'', ''InstanceId''], [''instance_id''],
                       [''InstanceId'']] of
                 Some v \<Rightarrow> Some v
               | None \<Rightarrow>
                   (case map_of kvs ''raw_message'' of
                      None \<Rightarrow> None
                    | Some raw \<Rightarrow> re_search_instance (py_str raw)))
      \<and> (follow_path message [''Trigger'', ''Dimensions'', ''InstanceId''] = Inr (PStr v)
           \<and> startswith v ''i-''
         \<longrightarrow> fst (extract_instance_id message tr) = Inr (Some v)))
   \<and> (\<not> is_dict message \<longrightarrow>
        (py_in ''raw_message'' message = Inr False
           \<longrightarrow> fst (extract_instance_id message tr) = Inr None)
      \<and> (py_in ''raw_message'' message \<noteq> Inr False
           \<longrightarrow> (\<exists>t. fst (extract_instance_id message tr) = Inl (TypeError, t))))"
proof (intro conjI impI)
  assume m: "message = PDict kvs"
  show e: "fst (extract_instance_id message tr)
        = Inr (case first_candidate message
                      [[''Trigger'', ''Dimensions'', ''InstanceId''], [''instance_id''],
                       [''InstanceId'']] of
                 Some v \<Rightarrow> Some v
               | None \<Rightarrow>
                   (case map_of kvs ''raw_message'' of
                      None \<Rightarrow> None
                    | Some raw \<Rightarrow> re_search_instance (py_str raw)))"
    unfolding m using extract_instance_id_dict [of kvs tr] by (simp only: paths_def)
  assume "follow_path message [''Trigger'', ''Dimensions'', ''InstanceId''] = Inr (PStr v)
           \<and> startswith v ''i-''"
  then have f: "follow_path message [''Trigger'', ''Dimensions'', ''InstanceId''] = Inr (PStr v)"
    and s: "startswith v ''i-''" by simp_all
  have "candidate_at message [''Trigger'', ''Dimensions'', ''InstanceId''] = Some v"
    using f accepted_prefix [OF s] by (simp add: candidate_at_def)
  then show "fst (extract_instance_id message tr) = Inr (Some v)" unfolding e by simp
next
  assume n: "\<not> is_dict message"
  {
    assume "py_in ''raw_message'' message = Inr False"
    then show "fst (extract_instance_id message tr) = Inr None"
      using raw_message_search_non_dict [OF n, of tr] extract_instance_id_non_dict [OF n, of tr]
      by simp
  }
  assume "py_in ''raw_message'' message \<noteq> Inr False"
  then show "\<exists>t. fst (extract_instance_id message tr) = Inl (TypeError, t)"
    using raw_message_search_non_dict [OF n, of tr] extract_instance_id_non_dict [OF n, of tr]
    by simp
qed

theorem extract_instance_id_strategies_witness:
  "follow_path (PDict [(''raw_message'', PStr ''alert for i-0def456''),
                       (''Trigger'', PDict [(''Dimensions'', PDict [(''InstanceId'', PStr ''i-0abc123'')])])])
       [''Trigger'', ''Dimensions'', ''InstanceId''] = Inr (PStr ''i-0abc123'')
   \<and> startswith ''i-0abc123'' ''i-''
   \<and> re_search_instance ''alert for i-0def456'' = Some ''i-0def456''
   \<and> fst (extract_instance_id
             (PDict [(''raw_message'', PStr ''alert for i-0def456''),
                     (''Trigger'', PDict [(''Dimensions'', PDict [(''InstanceId'', PStr ''i-0abc123'')])])])
             []) = Inr (Some ''i-0abc123'')
   \<and> \<not> is_dict (PList [PStr ''i-0abc123''])
   \<and> py_in ''raw_message'' (PList [PStr ''i-0abc123'']) = Inr False
   \<and> fst (extract_instance_id (PList [PStr ''i-0abc123'']) []) = Inr None
   \<and> \<not> is_dict PNone
   \<and> py_in ''raw_message'' PNone \<noteq> Inr False
   \<and> (\<exists>t. fst (extract_instance_id PNone []) = Inl (TypeError, t))"
proof -
  have f: "follow_path (PDict [(''raw_message'', PStr ''alert for i-0def456''),
                       (''Trigger'', PDict [(''Dimensions'', PDict [(''InstanceId'', PStr ''i-0abc123'')])])])
       [''Trigger'', ''Dimensions'', ''InstanceId''] = Inr (PStr ''i-0abc123'')"
    by simp
  have s: "startswith ''i-0abc123'' ''i-''" by (simp add: startswith_def)
  have r: "re_search_instance ''alert for i-0def456'' = Some ''i-0def456''"
    by code_simp
  have 1: "fst (extract_instance_id
             (PDict [(''raw_message'', PStr ''alert for i-0def456''),
                     (''Trigger'', PDict [(''Dimensions'', PDict [(''InstanceId'', PStr ''i-0abc123'')])])])
             []) = Inr (Some ''i-0abc123'')"
    using f s extract_instance_id_strategies
      [of "PDict [(''raw_message'', PStr ''alert for i-0def456''),
            (''Trigger'', PDict [(''Dimensions'', PDict [(''InstanceId'', PStr ''i-0abc123'')])])]"
          "[(''raw_message'', PStr ''alert for i-0def456''),
            (''Trigger'', PDict [(''Dimensions'', PDict [(''InstanceId'', PStr ''i-0abc123'')])])]"
          "[]" "''i-0abc123''"]
    by blast
  have l: "\<not> is_dict (PList [PStr ''i-0abc123''])"
    and li: "py_in ''raw_message'' (PList [PStr ''i-0abc123'']) = Inr False" by simp_all
  have 2: "fst (extract_instance_id (PList [PStr ''i-0abc123'']) []) = Inr None"
    using l li extract_instance_id_strategies [of "PList [PStr ''i-0abc123'']" "[]" "[]" "[]"]
    by blast
  have n: "\<not> is_dict PNone" and ni: "py_in ''raw_message'' PNone \<noteq> Inr False" by simp_all
  have 3: "\<exists>t. fst (extract_instance_id PNone []) = Inl (TypeError, t)"
    using n ni extract_instance_id_strategies [of PNone "[]" "[]" "[]"] by blast
  from f s r 1 l li 2 n ni 3 show ?thesis by blast
qed

text \<open>
  Claim C3 as stated fails: the payload \<^verbatim>\<open>42\<close> is decoded to the number, which the parser
  passes on as the message; no strategy succeeds on it, and the function raises instead of
  returning \<^verbatim>\<open>None\<close>.
\<close>

theorem extract_instance_id_number_counterexample:
  "fst (parse_sns_message sample_env [] (sns_event (PStr ''42''))) = PInt 42
   \<and> fst (extract_instance_id (PInt 42) [])
       = Inl (TypeError, ''argument of type '' @ sq @ ''int'' @ sq @ '' is not iterable'')"
  by code_simp

section \<open>Identifier extraction: the two lexical forms\<close>

lemma list_all_takeWhile: "list_all P (takeWhile P xs)"
  by (induction xs) simp_all

lemma match_here_form:
  assumes "match_here t = Some m"
  shows "regex_form m"
proof (cases t)
  case Nil
  with assms show ?thesis by simp
next
  case (Cons a t')
  show ?thesis
  proof (cases t')
    case Nil
    with Cons assms show ?thesis by simp
  next
    case inner: (Cons b rest)
    have ne: "takeWhile lower_alnum rest \<noteq> []"
    proof
      assume "takeWhile lower_alnum rest = []"
      then have "match_here (a # b # rest) = None" by simp
      with assms Cons inner show False by simp
    qed
    have "match_here (a # b # rest) = Some (''i-'' @ takeWhile lower_alnum rest)
          \<or> match_here (a # b # rest) = None"
      by simp
    with assms Cons inner have m: "m = ''i-'' @ takeWhile lower_alnum rest"
      by auto
    have la: "list_all lower_alnum (takeWhile lower_alnum rest)"
      by (rule list_all_takeWhile)
    have d: "drop 2 (''i-'' @ takeWhile lower_alnum rest) = takeWhile lower_alnum rest"
      by (simp add: numeral_2_eq_2)
    have st: "startswith (''i-'' @ takeWhile lower_alnum rest) ''i-''"
      by (simp add: startswith_def)
    from ne la d st show ?thesis unfolding m regex_form_def by simp
  qed
qed

lemma re_search_instance_form: "re_search_instance t = Some m \<Longrightarrow> regex_form m"
proof (induction t)
  case Nil
  then show ?case by simp
next
  case (Cons c cs)
  show ?case
  proof (cases "match_here (c # cs)")
    case None
    with Cons.prems have "re_search_instance cs = Some m" by simp
    then show ?thesis by (rule Cons.IH)
  next
    case (Some m')
    with Cons.prems have "m' = m" by simp
    with Some show ?thesis using match_here_form by blast
  qed
qed

lemma single_field_candidates:
  assumes "startswith v ''i-''"
  shows "first_candidate (PDict [(''Trigger'', PDict [(''Dimensions'', PDict [(''InstanceId'', PStr v)])])]) paths = Some v"
    and "first_candidate (PDict [(''instance_id'', PStr v)]) paths = Some v"
    and "first_candidate (PDict [(''InstanceId'', PStr v)]) paths = Some v"
proof -
  have a: "accepted (PStr v)" using assms by (rule accepted_prefix)
  show "first_candidate (PDict [(''Trigger'', PDict [(''Dimensions'', PDict [(''InstanceId'', PStr v)])])]) paths = Some v"
    unfolding paths_def using a by (simp add: candidate_at_def del: accepted.simps)
  show "first_candidate (PDict [(''instance_id'', PStr v)]) paths = Some v"
    unfolding paths_def using a by (simp add: candidate_at_def del: accepted.simps)
  show "first_candidate (PDict [(''InstanceId'', PStr v)]) paths = Some v"
    unfolding paths_def using a by (simp add: candidate_at_def del: accepted.simps)
qed

lemma extract_raw_only:
  "fst (extract_instance_id (PDict [(''raw_message'', raw)]) tr) = Inr (re_search_instance (py_str raw))"
proof -
  have "first_candidate (PDict [(''raw_message'', raw)]) paths = None"
    unfolding paths_def by (simp add: candidate_at_def)
  then show ?thesis by (simp add: extract_instance_id_dict)
qed

text \<open>
  Claim C10. The two kinds of strategy test different lexical forms. A structured field,
  at any of the three paths, is accepted whenever it is a string that starts with \<^verbatim>\<open>i-\<close>,
  the bare \<^verbatim>\<open>i-\<close> and strings with capitals included. The search of the raw text only
  ever returns \<^verbatim>\<open>i-\<close> followed by one or more characters of \<^verbatim>\<open>[a-z0-9]\<close>. Hence an
  identifier that is not of that form is never the result for a message that has only raw
  text, whatever the text.
\<close>

theorem extraction_lexical_forms:
  "(startswith v ''i-'' \<longrightarrow>
      fst (extract_instance_id
             (PDict [(''Trigger'', PDict [(''Dimensions'', PDict [(''InstanceId'', PStr v)])])]) tr)
        = Inr (Some v)
      \<and> fst (extract_instance_id (PDict [(''instance_id'', PStr v)]) tr) = Inr (Some v)
      \<and> fst (extract_instance_id (PDict [(''InstanceId'', PStr v)]) tr) = Inr (Some v))
   \<and> (re_search_instance raw_text = Some m \<longrightarrow> regex_form m)
   \<and> (\<not> regex_form v \<longrightarrow>
        fst (extract_instance_id (PDict [(''raw_message'', raw)]) tr) \<noteq> Inr (Some v))"
proof (intro conjI impI)
  assume s: "startswith v ''i-''"
  show "fst (extract_instance_id
             (PDict [(''Trigger'', PDict [(''Dimensions'', PDict [(''InstanceId'', PStr v)])])]) tr)
        = Inr (Some v)"
    by (simp add: extract_instance_id_dict single_field_candidates(1) [OF s])
  show "fst (extract_instance_id (PDict [(''instance_id'', PStr v)]) tr) = Inr (Some v)"
    by (simp add: extract_instance_id_dict single_field_candidates(2) [OF s])
  show "fst (extract_instance_id (PDict [(''InstanceId'', PStr v)]) tr) = Inr (Some v)"
    by (simp add: extract_instance_id_dict single_field_candidates(3) [OF s])
next
  assume "re_search_instance raw_text = Some m"
  then show "regex_form m" by (rule re_search_instance_form)
next
  assume n: "\<not> regex_form v"
  show "fst (extract_instance_id (PDict [(''raw_message'', raw)]) tr) \<noteq> Inr (Some v)"
  proof
    assume "fst (extract_instance_id (PDict [(''raw_message'', raw)]) tr) = Inr (Some v)"
    then have "re_search_instance (py_str raw) = Some v" by (simp add: extract_raw_only)
    then have "regex_form v" by (rule re_search_instance_form)
    with n show False ..
  qed
qed

theorem extraction_lexical_forms_witness:
  "startswith ''i-'' ''i-'' \<and> \<not> regex_form ''i-''
   \<and> fst (extract_instance_id (PDict [(''instance_id'', PStr ''i-'')]) []) = Inr (Some ''i-'')
   \<and> fst (extract_instance_id (PDict [(''raw_message'', PStr ''i-'')]) []) \<noteq> Inr (Some ''i-'')
   \<and> startswith ''i-0ABC'' ''i-'' \<and> \<not> regex_form ''i-0ABC''
   \<and> fst (extract_instance_id (PDict [(''InstanceId'', PStr ''i-0ABC'')]) []) = Inr (Some ''i-0ABC'')
   \<and> fst (extract_instance_id (PDict [(''raw_message'', PStr ''i-0ABC'')]) []) \<noteq> Inr (Some ''i-0ABC'')
   \<and> re_search_instance ''i-0ABC'' = Some ''i-0'' \<and> regex_form ''i-0''"
proof -
  have a: "startswith ''i-'' ''i-''" "startswith ''i-0ABC'' ''i-''"
    by (simp_all add: startswith_def)
  have b: "\<not> regex_form ''i-''" by code_simp
  have c: "\<not> regex_form ''i-0ABC''" by code_simp
  have d: "re_search_instance ''i-0ABC'' = Some ''i-0''" by code_simp
  from a b c d
    extraction_lexical_forms [of "''i-''" "[]" "''i-0ABC''" "''i-0''" "PStr ''i-''"]
    extraction_lexical_forms [of "''i-0ABC''" "[]" "''i-0ABC''" "''i-0''" "PStr ''i-0ABC''"]
  show ?thesis by blast
qed

section \<open>Parsing the event\<close>

text \<open>
  Claim C7, as amended. \<^verbatim>\<open>parse_sns_message\<close> returns a message for every event and never
  raises. The message is what the decoder gives for a string payload, and the payload
  itself when it is not a string. When the decoder raises \<^verbatim>\<open>JSONDecodeError\<close> on a string
  payload, the message is the dictionary with the one field \<^verbatim>\<open>raw_message\<close> holding that
  string, after a warning has been logged. When the decoder raises any other exception, or
  the envelope cannot be read, the message is the empty dictionary.
\<close>

theorem parse_sns_message_total:
  "fst (parse_sns_message env tr event)
     = (case message_field event of
          Inl e \<Rightarrow> PDict []
        | Inr (PStr s) \<Rightarrow>
            (case json_loads env s of
               Inr message \<Rightarrow> message
             | Inl e \<Rightarrow> if fst e = JSONDecodeError then PDict [(''raw_message'', PStr s)]
                        else PDict [])
        | Inr message \<Rightarrow> message)
   \<and> (message_field event = Inr (PStr payload) \<and> json_loads env payload = Inl (JSONDecodeError, t)
      \<longrightarrow> parse_sns_message env tr event
            = (PDict [(''raw_message'', PStr payload)],
               tr @ [Log WARNING ''Could not parse as JSON, treating as plain text: {}'' [PStr payload],
                     Log INFO ''Parsed SNS Message: {}'' [PDict [(''raw_message'', PStr payload)]]]))"
proof (intro conjI impI)
  show "fst (parse_sns_message env tr event)
     = (case message_field event of
          Inl e \<Rightarrow> PDict []
        | Inr (PStr s) \<Rightarrow>
            (case json_loads env s of
               Inr message \<Rightarrow> message
             | Inl e \<Rightarrow> if fst e = JSONDecodeError then PDict [(''raw_message'', PStr s)]
                        else PDict [])
        | Inr message \<Rightarrow> message)"
    by (simp add: parse_sns_message_def decode_message_def split: sum.split pyval.split)
next
  assume "message_field event = Inr (PStr payload) \<and> json_loads env payload = Inl (JSONDecodeError, t)"
  then show "parse_sns_message env tr event
            = (PDict [(''raw_message'', PStr payload)],
               tr @ [Log WARNING ''Could not parse as JSON, treating as plain text: {}'' [PStr payload],
                     Log INFO ''Parsed SNS Message: {}'' [PDict [(''raw_message'', PStr payload)]]])"
    by (simp add: parse_sns_message_def decode_message_def)
qed

lemma message_field_sns_event: "message_field (sns_event m) = Inr m"
  by (simp add: message_field_def sns_event_def and_then_def)

theorem parse_sns_message_total_witness:
  "message_field (sns_event (PStr ''server down'')) = Inr (PStr ''server down'')
   \<and> json_loads sample_env ''server down''
       = Inl (JSONDecodeError, ''Expecting value: line 1 column 1 (char 0)'')
   \<and> parse_sns_message sample_env [] (sns_event (PStr ''server down''))
       = (PDict [(''raw_message'', PStr ''server down'')],
          [Log WARNING ''Could not parse as JSON, treating as plain text: {}'' [PStr ''server down''],
           Log INFO ''Parsed SNS Message: {}'' [PDict [(''raw_message'', PStr ''server down'')]]])"
proof -
  have m: "message_field (sns_event (PStr ''server down'')) = Inr (PStr ''server down'')"
    by (rule message_field_sns_event)
  have j: "json_loads sample_env ''server down''
       = Inl (JSONDecodeError, ''Expecting value: line 1 column 1 (char 0)'')"
    by (simp add: sample_env_def)
  from m j parse_sns_message_total
    [of sample_env "[]" "sns_event (PStr ''server down'')" "''server down''"
        "''Expecting value: line 1 column 1 (char 0)''"]
  show ?thesis by simp
qed

text \<open>
  Claim C7 as stated fails: a payload of five thousand digits is not decodable, the decoder
  raising \<^verbatim>\<open>ValueError\<close>, and the parser returns the empty dictionary, not the raw text.
\<close>

theorem parse_sns_message_digit_limit_counterexample:
  "json_loads digit_limit_env long_number
     = Inl (ValueError,
            ''Exceeds the limit (4300 digits) for integer string conversion: ''
              @ ''value has 5000 digits; use sys.set_int_max_str_digits() to increase the limit'')
   \<and> fst (parse_sns_message digit_limit_env [] (sns_event (PStr long_number))) = PDict []"
  by (simp add: digit_limit_env_def sample_env_def parse_sns_message_def decode_message_def
        message_field_sns_event)

section \<open>Reporting without a topic\<close>

text \<open>
  Claim C6, as amended. With no topic configured \<^verbatim>\<open>publish_healing_result\<close> does not
  raise and publishes nothing; the one thing it does is write the warning line. It writes
  no audit entry: the audit entries after the call are those before it.
\<close>

theorem publish_healing_result_no_topic:
  assumes "SNS_TOPIC_ARN env = []"
  shows "publish_healing_result env tr instance_id action success details
           = tr @ [Log WARNING ''SNS topic ARN not configured, skipping notification'' []]
         \<and> filter is_publish (publish_healing_result env tr instance_id action success details)
             = filter is_publish tr
         \<and> filter is_audit (publish_healing_result env tr instance_id action success details)
             = filter is_audit tr"
  using assms by (simp add: publish_healing_result_def)

theorem publish_healing_result_no_topic_witness:
  "SNS_TOPIC_ARN no_topic_env = []
   \<and> publish_healing_result no_topic_env [] ''i-0abc123'' ''reboot'' True (PStr ''status check failed'')
       = [Log WARNING ''SNS topic ARN not configured, skipping notification'' []]"
proof -
  have a: "SNS_TOPIC_ARN no_topic_env = []" by (simp add: no_topic_env_def)
  from a publish_healing_result_no_topic
    [OF a, of "[]" "''i-0abc123''" "''reboot''" True "PStr ''status check failed''"]
  show ?thesis by simp
qed

text \<open>
  Claim C6 as stated fails: the call leaves no audit entry, not exactly one.
\<close>

theorem publish_healing_result_audit_counterexample:
  "length (filter is_audit
     (publish_healing_result no_topic_env [] ''i-0abc123'' ''reboot'' True
        (PStr ''status check failed''))) = 0"
  by (simp add: publish_healing_result_def no_topic_env_def)

section \<open>The switch\<close>

text \<open>
  Claim C4, as amended. With the switch off both executors return \<^verbatim>\<open>False\<close> without
  raising, and all they do is write one information line that names the skipped operation
  and the instance; no collaborator is called, for the reboot and for every other action.
  The returned value is the bare flag.
\<close>

theorem executors_disabled:
  assumes "\<not> AUTO_HEALING_ENABLED env"
  shows "execute_reboot_instance env tr instance_id
           = (False, tr @ [Log INFO ''Auto-healing disabled, skipping reboot for {}''
                             [PStr instance_id]])
         \<and> execute_ssm_command env tr instance_id action
           = (False, tr @ [Log INFO ''Auto-healing disabled, skipping SSM command for {}''
                             [PStr instance_id]])
         \<and> fst (execute_action env tr instance_id action) = False
         \<and> filter is_call (snd (execute_action env tr instance_id action)) = filter is_call tr"
  using assms
  by (simp add: execute_reboot_instance_def execute_ssm_command_def execute_action_def)

theorem executors_disabled_witness:
  "\<not> AUTO_HEALING_ENABLED disabled_env
   \<and> execute_action disabled_env [] ''i-0abc123'' ''reboot''
       = (False, [Log INFO ''Auto-healing disabled, skipping reboot for {}'' [PStr ''i-0abc123'']])
   \<and> execute_action disabled_env [] ''i-0abc123'' ''cleanup_disk''
       = (False, [Log INFO ''Auto-healing disabled, skipping SSM command for {}''
                    [PStr ''i-0abc123'']])"
proof -
  have a: "\<not> AUTO_HEALING_ENABLED disabled_env" by (simp add: disabled_env_def)
  from a executors_disabled [OF a, of "[]" "''i-0abc123''" "''cleanup_disk''"]
  show ?thesis by (simp add: execute_action_def)
qed

text \<open>
  Claim C4 as stated fails on the detail. With the switch off and a disk alarm for
  \<^verbatim>\<open>i-0abc123\<close>, the executor returns the bare flag \<^verbatim>\<open>False\<close>; the result that is then
  published carries the alarm description (here empty) as its details, and the response
  body has no detail at all. The text about the switch exists only as the log line.
\<close>

theorem disabled_detail_counterexample:
  "execute_ssm_command disabled_env [] ''i-0abc123'' ''cleanup_disk''
     = (False, [Log INFO ''Auto-healing disabled, skipping SSM command for {}'' [PStr ''i-0abc123'']])
   \<and> filter is_publish
        (snd (lambda_handler disabled_env []
          (sns_event (PDict [(''AlarmName'', PStr ''disk-full''),
                             (''InstanceId'', PStr ''i-0abc123'')]))))
     = [Publish ''arn:aws:sns:us-east-1:123456789012:auto-heal''
          ''Auto-Heal: cleanup_disk - i-0abc123''
          (PDict [(''healing_action'', PStr ''cleanup_disk''),
                  (''instance_id'', PStr ''i-0abc123''),
                  (''status'', PStr ''failed''),
                  (''timestamp'', PStr ''2024-01-01T00:00:00''),
                  (''details'', PStr [])])]
   \<and> fst (lambda_handler disabled_env []
          (sns_event (PDict [(''AlarmName'', PStr ''disk-full''),
                             (''InstanceId'', PStr ''i-0abc123'')])))
     = \<lparr>statusCode = 500,
        body = PDict [(''instance_id'', PStr ''i-0abc123''),
                      (''action'', PStr ''cleanup_disk''),
                      (''status'', PStr ''failed''),
                      (''timestamp'', PStr ''2024-01-01T00:00:00'')]\<rparr>"
  by code_simp

section \<open>What the executors add to a trace\<close>

lemma slept_append: "slept (a @ b) = slept a + slept b"
  by (induction a rule: slept.induct) simp_all

lemma polls_append: "polls (a @ b) = polls a + polls b"
  by (simp add: polls_def)

lemma dispatches_append: "dispatches (a @ b) = dispatches a + dispatches b"
  by (simp add: dispatches_def)

lemma polls_simps [simp]:
  "polls [] = 0"
  "polls (e # tr) = (if is_poll e then Suc (polls tr) else polls tr)"
  by (simp_all add: polls_def)

lemma dispatches_simps [simp]:
  "dispatches [] = 0"
  "dispatches (e # tr) = (if is_dispatch e then Suc (dispatches tr) else dispatches tr)"
  by (simp_all add: dispatches_def)

lemma snd_log_healing_action:
  "snd (log_healing_action env tr i a s d)
     = tr @ [Log INFO ''HEALING_ACTION: {}'' [fst (log_healing_action env tr i a s d)]]"
  by (simp add: log_healing_action_def Let_def)

lemma get_instance_details_trace:
  "\<exists>logs. snd (get_instance_details env tr instance_id) = tr @ DescribeInstances instance_id # logs
          \<and> slept logs = 0 \<and> polls logs = 0 \<and> dispatches logs = 0"
  by (cases "and_then (describe_instances env tr instance_id) (\<lambda>response.
            and_then (py_item response ''Reservations'') (\<lambda>reservations.
            and_then (py_first reservations) (\<lambda>reservation.
            and_then (py_item reservation ''Instances'') (\<lambda>instances.
            if py_truthy instances then py_first instances else Inr PNone))))")
     (simp_all add: get_instance_details_def Let_def)

lemma ssm_failed_result:
  "fst (ssm_failed env tr i a e) = False"
  "slept (snd (ssm_failed env tr i a e)) = slept tr"
  "polls (snd (ssm_failed env tr i a e)) = polls tr"
  "dispatches (snd (ssm_failed env tr i a e)) = dispatches tr"
  "prefix tr (snd (ssm_failed env tr i a e))"
  by (simp_all add: ssm_failed_def snd_log_healing_action slept_append polls_append
        dispatches_append)

lemma adds_step:
  assumes "adds (tr @ [Sleep 3, GetCommandInvocation c i, Log l t args]) tr' n"
  shows "adds tr tr' (Suc n)"
proof -
  have "prefix tr (tr @ [Sleep 3, GetCommandInvocation c i, Log l t args])" by simp
  with assms have "prefix tr tr'" unfolding adds_def using prefix_order.trans by blast
  with assms show ?thesis
    unfolding adds_def by (simp add: polls_append slept_append dispatches_append)
qed

lemma poll_adds: "adds tr (snd (poll env tr i a c n)) n"
proof (induction n arbitrary: tr)
  case 0
  show ?case by (simp add: adds_def)
next
  case (Suc n)
  let ?r = "and_then (get_command_invocation env (tr @ [Sleep 3]) c i)
              (\<lambda>status_response. and_then (py_item status_response ''Status'')
                 (\<lambda>status. Inr (status_response, status)))"
  show ?case
  proof (cases ?r)
    case (Inl e)
    then show ?thesis
      by (simp add: adds_def polls_append slept_append dispatches_append)
  next
    case (Inr p)
    obtain resp status where p: "p = (resp, status)" by (cases p)
    let ?tr3 = "tr @ [Sleep 3, GetCommandInvocation c i, Log INFO ''Command {} status: {}'' [c, status]]"
    consider (success) "status = PStr ''Success''"
      | (failed) "status = PStr ''Failed''"
      | (other) "status \<noteq> PStr ''Success''" "status \<noteq> PStr ''Failed''" by blast
    then show ?thesis
    proof cases
      case success
      with Inr p show ?thesis
        by (simp add: adds_def snd_log_healing_action polls_append slept_append dispatches_append)
    next
      case failed
      with Inr p show ?thesis
        by (cases "py_get resp ''StandardErrorContent'' (PStr ''Unknown error'')")
           (simp_all add: adds_def snd_log_healing_action polls_append slept_append
              dispatches_append)
    next
      case other
      with Inr p have "poll env tr i a c (Suc n) = poll env ?tr3 i a c n" by simp
      moreover have "adds ?tr3 (snd (poll env ?tr3 i a c n)) n" by (rule Suc.IH)
      ultimately show ?thesis using adds_step by simp
    qed
  qed
qed

lemma adds_trans: "adds a b 0 \<Longrightarrow> adds b c n \<Longrightarrow> adds a c n"
  unfolding adds_def using prefix_order.trans by fastforce

lemma adds_weaken: "adds a b m \<Longrightarrow> m \<le> n \<Longrightarrow> adds a b n"
  unfolding adds_def by simp

lemma adds_logs: "slept logs = 0 \<Longrightarrow> polls logs = 0 \<Longrightarrow> adds tr (tr @ logs) 0"
  unfolding adds_def by (simp add: polls_append slept_append)

lemma ssm_failed_adds: "adds tr (snd (ssm_failed env tr i a e)) 0"
  unfolding adds_def by (simp add: ssm_failed_result)

lemma dispatch_and_wait_adds: "adds tr (snd (dispatch_and_wait env tr i a)) max_attempts"
proof -
  let ?tr1 = "tr @ [Log INFO ''Executing SSM command: {} on instance {}'' [PStr a, PStr i]]"
  let ?tr2 = "?tr1 @ [SendCommand i (command_for a) (HEALING_ACTION_TIMEOUT env)]"
  have t2: "adds tr ?tr2 0"
    unfolding adds_def by (simp add: polls_append slept_append)
  show ?thesis
  proof (cases "send_and_read_id env ?tr1 i (command_for a)")
    case (Inl e)
    then have "snd (dispatch_and_wait env tr i a) = snd (ssm_failed env ?tr2 i a e)"
      by (simp add: dispatch_and_wait_def Let_def)
    with adds_trans [OF t2 ssm_failed_adds [of ?tr2 env i a e]] show ?thesis
      using adds_weaken by fastforce
  next
    case (Inr c)
    let ?tr3 = "?tr2 @ [Log INFO ''SSM command {} sent to instance {}'' [c, PStr i]]"
    let ?tr4 = "snd (log_healing_action env ?tr3 i (''ssm_'' @ a) ''initiated''
                       (PStr (''Command ID: '' @ py_str c)))"
    have t4: "adds tr ?tr4 0"
      unfolding adds_def by (simp add: snd_log_healing_action polls_append slept_append)
    obtain r tr5 where p: "poll env ?tr4 i a c max_attempts = (r, tr5)" by (cases "poll env ?tr4 i a c max_attempts")
    have "adds ?tr4 tr5 max_attempts" using poll_adds [of ?tr4 env i a c max_attempts] p by simp
    with t4 have t5: "adds tr tr5 max_attempts" by (rule adds_trans)
    show ?thesis
    proof (cases r)
      case (Inl e)
      with Inr p have "snd (dispatch_and_wait env tr i a) = snd (ssm_failed env tr5 i a e)"
        by (simp add: dispatch_and_wait_def Let_def)
      moreover have "adds tr (snd (ssm_failed env tr5 i a e)) max_attempts"
        using t5 ssm_failed_adds [of tr5 env i a e]
        unfolding adds_def using prefix_order.trans by fastforce
      ultimately show ?thesis by simp
    next
      case inner: (Inr res)
      show ?thesis
      proof (cases res)
        case None
        with Inr p inner have "snd (dispatch_and_wait env tr i a)
            = tr5 @ [Log WARNING ''Command {} did not complete within timeout period'' [c]]"
          by (simp add: dispatch_and_wait_def Let_def)
        moreover have "adds tr (tr5 @ [Log WARNING ''Command {} did not complete within timeout period'' [c]]) max_attempts"
          using t5 unfolding adds_def by (simp add: polls_append slept_append prefix_order.trans)
        ultimately show ?thesis by simp
      next
        case (Some b)
        with Inr p inner have "snd (dispatch_and_wait env tr i a) = tr5"
          by (simp add: dispatch_and_wait_def Let_def)
        with t5 show ?thesis by simp
      qed
    qed
  qed
qed

section \<open>The state check before a dispatch\<close>

lemma execute_ssm_command_adds: "adds tr (snd (execute_ssm_command env tr i a)) max_attempts"
proof (cases "AUTO_HEALING_ENABLED env")
  case False
  then show ?thesis by (simp add: execute_ssm_command_def adds_def polls_append slept_append)
next
  case True
  obtain inst tr1 where g: "get_instance_details env tr i = (inst, tr1)"
    by (cases "get_instance_details env tr i")
  obtain logs where "tr1 = tr @ DescribeInstances i # logs" "slept logs = 0" "polls logs = 0"
    using get_instance_details_trace [of env tr i] g by auto
  then have t1: "adds tr tr1 0"
    unfolding adds_def by (simp add: polls_append slept_append)
  have step: "adds tr (tr1 @ [Log l t args]) max_attempts" for l t args
    using t1 unfolding adds_def by (simp add: polls_append slept_append prefix_order.trans)
  show ?thesis
  proof (cases "py_truthy inst")
    case False
    with True g step show ?thesis by (simp add: execute_ssm_command_def)
  next
    case truthy: True
    show ?thesis
    proof (cases "and_then (py_item inst ''State'') (\<lambda>state. py_item state ''Name'')")
      case (Inl e)
      with True g truthy have "snd (execute_ssm_command env tr i a) = snd (ssm_failed env tr1 i a e)"
        by (simp add: execute_ssm_command_def)
      moreover have "adds tr (snd (ssm_failed env tr1 i a e)) max_attempts"
        using adds_trans [OF t1 ssm_failed_adds [of tr1 env i a e]] adds_weaken by fastforce
      ultimately show ?thesis by simp
    next
      case (Inr name)
      show ?thesis
      proof (cases "name = PStr ''running''")
        case False
        with True g truthy Inr step show ?thesis by (simp add: execute_ssm_command_def)
      next
        case running: True
        with True g truthy Inr
        have "snd (execute_ssm_command env tr i a) = snd (dispatch_and_wait env tr1 i a)"
          by (simp add: execute_ssm_command_def)
        with adds_trans [OF t1 dispatch_and_wait_adds [of tr1 env i a]] show ?thesis by simp
      qed
    qed
  qed
qed

lemma execute_ssm_command_refetch:
  assumes "AUTO_HEALING_ENABLED env"
  shows "prefix (tr @ [DescribeInstances i]) (snd (execute_ssm_command env tr i a))"
proof -
  obtain inst tr1 where g: "get_instance_details env tr i = (inst, tr1)"
    by (cases "get_instance_details env tr i")
  obtain logs where l: "tr1 = (tr @ [DescribeInstances i]) @ logs"
    using get_instance_details_trace [of env tr i] g by auto
  then have p1: "prefix (tr @ [DescribeInstances i]) tr1" by simp
  have p2: "prefix tr1 (snd (execute_ssm_command env tr i a))"
  proof (cases "py_truthy inst")
    case False
    with assms g show ?thesis by (simp add: execute_ssm_command_def)
  next
    case truthy: True
    show ?thesis
    proof (cases "and_then (py_item inst ''State'') (\<lambda>state. py_item state ''Name'')")
      case (Inl e)
      with assms g truthy show ?thesis
        by (simp add: execute_ssm_command_def ssm_failed_result)
    next
      case (Inr name)
      show ?thesis
      proof (cases "name = PStr ''running''")
        case False
        with assms g truthy Inr show ?thesis by (simp add: execute_ssm_command_def)
      next
        case True
        with assms g truthy Inr
        have "snd (execute_ssm_command env tr i a) = snd (dispatch_and_wait env tr1 i a)"
          by (simp add: execute_ssm_command_def)
        with dispatch_and_wait_adds [of tr1 env i a] show ?thesis by (simp add: adds_def)
      qed
    qed
  qed
  from p1 p2 show ?thesis by (rule prefix_order.trans)
qed

lemma execute_ssm_command_not_running:
  assumes "\<not> running_now env tr i"
  shows "fst (execute_ssm_command env tr i a) = False
         \<and> dispatches (snd (execute_ssm_command env tr i a)) = dispatches tr
         \<and> polls (snd (execute_ssm_command env tr i a)) = polls tr
         \<and> slept (snd (execute_ssm_command env tr i a)) = slept tr"
proof (cases "AUTO_HEALING_ENABLED env")
  case False
  then show ?thesis
    by (simp add: execute_ssm_command_def polls_append slept_append dispatches_append)
next
  case True
  obtain inst tr1 where g: "get_instance_details env tr i = (inst, tr1)"
    by (cases "get_instance_details env tr i")
  obtain logs where "tr1 = tr @ DescribeInstances i # logs" "slept logs = 0" "polls logs = 0"
      "dispatches logs = 0"
    using get_instance_details_trace [of env tr i] g by auto
  then have c: "dispatches tr1 = dispatches tr" "polls tr1 = polls tr" "slept tr1 = slept tr"
    by (simp_all add: polls_append slept_append dispatches_append)
  show ?thesis
  proof (cases "py_truthy inst")
    case False
    with True g c show ?thesis
      by (simp add: execute_ssm_command_def polls_append slept_append dispatches_append)
  next
    case truthy: True
    show ?thesis
    proof (cases "and_then (py_item inst ''State'') (\<lambda>state. py_item state ''Name'')")
      case (Inl e)
      with True g truthy c show ?thesis
        by (simp add: execute_ssm_command_def ssm_failed_result)
    next
      case (Inr name)
      with assms g truthy have "name \<noteq> PStr ''running''"
        by (auto simp: running_now_def)
      with True g truthy Inr c show ?thesis
        by (simp add: execute_ssm_command_def polls_append slept_append dispatches_append)
    qed
  qed
qed

text \<open>
  Claim C9. For every action, \<^verbatim>\<open>execute_ssm_command\<close> with the switch on begins by asking
  the compute-management service for the instance, before anything else happens. When the
  instance returned is absent or its state name is not \<^verbatim>\<open>running\<close> (or cannot be read),
  the result is \<^verbatim>\<open>False\<close> and the trace gains no dispatch, no status request and no
  sleep.
\<close>

theorem execute_ssm_command_checks_state:
  "(AUTO_HEALING_ENABLED env
      \<longrightarrow> prefix (tr @ [DescribeInstances instance_id])
            (snd (execute_ssm_command env tr instance_id action)))
   \<and> (\<not> running_now env tr instance_id
      \<longrightarrow> fst (execute_ssm_command env tr instance_id action) = False
        \<and> dispatches (snd (execute_ssm_command env tr instance_id action)) = dispatches tr
        \<and> polls (snd (execute_ssm_command env tr instance_id action)) = polls tr
        \<and> slept (snd (execute_ssm_command env tr instance_id action)) = slept tr)"
  using execute_ssm_command_refetch [of env tr instance_id action]
        execute_ssm_command_not_running [of env tr instance_id action]
  by blast

theorem execute_ssm_command_checks_state_witness:
  "AUTO_HEALING_ENABLED stopped_env \<and> \<not> running_now stopped_env [] ''i-0abc123''
   \<and> prefix [DescribeInstances ''i-0abc123'']
        (snd (execute_ssm_command stopped_env [] ''i-0abc123'' ''clear_cache''))
   \<and> fst (execute_ssm_command stopped_env [] ''i-0abc123'' ''clear_cache'') = False
   \<and> dispatches (snd (execute_ssm_command stopped_env [] ''i-0abc123'' ''clear_cache'')) = 0
   \<and> polls (snd (execute_ssm_command stopped_env [] ''i-0abc123'' ''clear_cache'')) = 0
   \<and> slept (snd (execute_ssm_command stopped_env [] ''i-0abc123'' ''clear_cache'')) = 0"
proof -
  have a: "AUTO_HEALING_ENABLED stopped_env" by (simp add: stopped_env_def sample_env_def)
  have b: "\<not> running_now stopped_env [] ''i-0abc123''" by code_simp
  from a b execute_ssm_command_checks_state [of stopped_env "[]" "''i-0abc123''" "''clear_cache''"]
  show ?thesis by simp
qed

section \<open>The status loop\<close>

lemma py_item_dict: "py_item v k = Inr x \<Longrightarrow> \<exists>kvs. v = PDict kvs"
  by (cases v) (simp_all add: not_subscriptable_def)

lemma poll_step:
  assumes g: "get_command_invocation env (tr @ [Sleep 3]) c i = Inr resp"
      and s: "py_item resp ''Status'' = Inr status"
  shows "status = PStr ''Success'' \<Longrightarrow>
           fst (poll env tr i a c (Suc n)) = Inr (Some True)
           \<and> polls (snd (poll env tr i a c (Suc n))) = Suc (polls tr)"
    and "status = PStr ''Failed'' \<Longrightarrow>
           fst (poll env tr i a c (Suc n)) = Inr (Some False)
           \<and> polls (snd (poll env tr i a c (Suc n))) = Suc (polls tr)"
    and "status \<noteq> PStr ''Success'' \<Longrightarrow> status \<noteq> PStr ''Failed'' \<Longrightarrow>
           poll env tr i a c (Suc n)
             = poll env (tr @ [Sleep 3, GetCommandInvocation c i,
                               Log INFO ''Command {} status: {}'' [c, status]]) i a c n"
proof -
  have r: "and_then (get_command_invocation env (tr @ [Sleep 3]) c i)
              (\<lambda>status_response. and_then (py_item status_response ''Status'')
                 (\<lambda>status. Inr (status_response, status))) = Inr (resp, status)"
    using g s by (simp add: and_then_def)
  obtain kvs where d: "resp = PDict kvs" using py_item_dict [OF s] by blast
  show "status = PStr ''Success'' \<Longrightarrow>
           fst (poll env tr i a c (Suc n)) = Inr (Some True)
           \<and> polls (snd (poll env tr i a c (Suc n))) = Suc (polls tr)"
    using r by (simp add: snd_log_healing_action polls_append)
  show "status = PStr ''Failed'' \<Longrightarrow>
           fst (poll env tr i a c (Suc n)) = Inr (Some False)
           \<and> polls (snd (poll env tr i a c (Suc n))) = Suc (polls tr)"
    using r d by (simp add: snd_log_healing_action polls_append)
  show "status \<noteq> PStr ''Success'' \<Longrightarrow> status \<noteq> PStr ''Failed'' \<Longrightarrow>
           poll env tr i a c (Suc n)
             = poll env (tr @ [Sleep 3, GetCommandInvocation c i,
                               Log INFO ''Command {} status: {}'' [c, status]]) i a c n"
    using r by simp
qed

lemma execute_ssm_command_bound:
  "polls (snd (execute_ssm_command env tr i a)) \<le> polls tr + 10
   \<and> slept (snd (execute_ssm_command env tr i a)) + 3 * polls tr
       = slept tr + 3 * polls (snd (execute_ssm_command env tr i a))
   \<and> slept (snd (execute_ssm_command env tr i a)) \<le> slept tr + 30"
  using execute_ssm_command_adds [of tr env i a]
  unfolding adds_def max_attempts_def by linarith

lemma status_seen_Inr:
  "status_seen env tr c i = Inr status \<Longrightarrow>
     \<exists>resp. get_command_invocation env (tr @ [Sleep 3]) c i = Inr resp
            \<and> py_item resp ''Status'' = Inr status"
  by (cases "get_command_invocation env (tr @ [Sleep 3]) c i")
     (simp_all add: status_seen_def and_then_def)

lemma poll_after_pending:
  "after_pending env tr c i k = Some t \<Longrightarrow> poll env tr i a c (k + n) = poll env t i a c n"
proof (induction k arbitrary: tr)
  case 0
  then show ?case by simp
next
  case (Suc k)
  from Suc.prems obtain status where s: "status_seen env tr c i = Inr status"
    and nt: "status \<noteq> PStr ''Success''" "status \<noteq> PStr ''Failed''"
    and rest: "after_pending env
                 (tr @ [Sleep 3, GetCommandInvocation c i,
                        Log INFO ''Command {} status: {}'' [c, status]]) c i k = Some t"
    by (auto split: sum.splits if_splits)
  obtain resp where g: "get_command_invocation env (tr @ [Sleep 3]) c i = Inr resp"
    and p: "py_item resp ''Status'' = Inr status"
    using status_seen_Inr [OF s] by blast
  have "poll env tr i a c (Suc (k + n))
          = poll env (tr @ [Sleep 3, GetCommandInvocation c i,
                            Log INFO ''Command {} status: {}'' [c, status]]) i a c (k + n)"
    using poll_step(3) [OF g p nt] .
  also have "\<dots> = poll env t i a c n" using Suc.IH [OF rest] .
  finally show ?case by simp
qed

lemma after_pending_counts:
  "after_pending env tr c i k = Some t \<Longrightarrow>
     polls t = polls tr + k \<and> slept t = slept tr + 3 * k"
proof (induction k arbitrary: tr)
  case 0
  then show ?case by simp
next
  case (Suc k)
  from Suc.prems obtain status where
    rest: "after_pending env
                 (tr @ [Sleep 3, GetCommandInvocation c i,
                        Log INFO ''Command {} status: {}'' [c, status]]) c i k = Some t"
    by (auto split: sum.splits if_splits)
  from Suc.IH [OF rest] show ?case by (simp add: polls_append slept_append)
qed

text \<open>One request that sees a final status ends the loop.\<close>

lemma poll_final:
  assumes s: "status_seen env t c i = Inr status"
      and f: "status = PStr ''Success'' \<or> status = PStr ''Failed''"
  shows "fst (poll env t i a c (Suc n)) = Inr (Some (status = PStr ''Success''))
         \<and> polls (snd (poll env t i a c (Suc n))) = Suc (polls t)
         \<and> slept (snd (poll env t i a c (Suc n))) = slept t + 3"
proof -
  obtain resp where g: "get_command_invocation env (t @ [Sleep 3]) c i = Inr resp"
    and p: "py_item resp ''Status'' = Inr status"
    using status_seen_Inr [OF s] by blast
  have r: "fst (poll env t i a c (Suc n)) = Inr (Some (status = PStr ''Success''))"
    and q: "polls (snd (poll env t i a c (Suc n))) = Suc (polls t)"
    using f poll_step(1) [OF g p, of a n] poll_step(2) [OF g p, of a n] by auto
  have "adds t (snd (poll env t i a c (Suc n))) (Suc n)" by (rule poll_adds)
  with q have "slept (snd (poll env t i a c (Suc n))) = slept t + 3"
    unfolding adds_def by simp
  with r q show ?thesis by simp
qed

text \<open>From where the loop starts, the executor is the loop and what follows it.\<close>

lemma execute_from_start:
  assumes "polling_start env tr i a = Some (c, start)"
  shows "execute_ssm_command env tr i a
           = (case poll env start i a c max_attempts of
                (Inl e, tr5) \<Rightarrow> ssm_failed env tr5 i a e
              | (Inr (Some result), tr5) \<Rightarrow> (result, tr5)
              | (Inr None, tr5) \<Rightarrow>
                  (False, tr5 @ [Log WARNING ''Command {} did not complete within timeout period''
                                   [c]]))"
    and "polls start = polls tr" and "slept start = slept tr"
proof -
  from assms have en: "AUTO_HEALING_ENABLED env" and run: "running_now env tr i"
    by (auto simp: polling_start_def split: if_splits)
  obtain inst tr1 where g: "get_instance_details env tr i = (inst, tr1)"
    by (cases "get_instance_details env tr i")
  from run g have t: "py_truthy inst"
    and st: "and_then (py_item inst ''State'') (\<lambda>state. py_item state ''Name'') = Inr (PStr ''running'')"
    by (simp_all add: running_now_def)
  have d: "dispatch_trace env tr i a
             = tr1 @ [Log INFO ''Executing SSM command: {} on instance {}'' [PStr a, PStr i]]"
    using g by (simp add: dispatch_trace_def)
  from assms en run have sr: "send_and_read_id env (dispatch_trace env tr i a) i (command_for a) = Inr c"
    and sta: "start = snd (log_healing_action env
                          (dispatch_trace env tr i a
                             @ [SendCommand i (command_for a) (HEALING_ACTION_TIMEOUT env),
                                Log INFO ''SSM command {} sent to instance {}'' [c, PStr i]])
                          i (''ssm_'' @ a) ''initiated''
                          (PStr (''Command ID: '' @ py_str c)))"
    by (auto simp: polling_start_def split: sum.splits)
  have "execute_ssm_command env tr i a = dispatch_and_wait env tr1 i a"
    using en g t st by (simp add: execute_ssm_command_def)
  also have "\<dots> = (case poll env start i a c max_attempts of
                (Inl e, tr5) \<Rightarrow> ssm_failed env tr5 i a e
              | (Inr (Some result), tr5) \<Rightarrow> (result, tr5)
              | (Inr None, tr5) \<Rightarrow>
                  (False, tr5 @ [Log WARNING ''Command {} did not complete within timeout period''
                                   [c]]))"
    using sr sta unfolding d by (simp add: dispatch_and_wait_def Let_def)
  finally show "execute_ssm_command env tr i a
           = (case poll env start i a c max_attempts of
                (Inl e, tr5) \<Rightarrow> ssm_failed env tr5 i a e
              | (Inr (Some result), tr5) \<Rightarrow> (result, tr5)
              | (Inr None, tr5) \<Rightarrow>
                  (False, tr5 @ [Log WARNING ''Command {} did not complete within timeout period''
                                   [c]]))" .
  obtain logs where "tr1 = tr @ DescribeInstances i # logs" "slept logs = 0" "polls logs = 0"
    using get_instance_details_trace [of env tr i] g by auto
  then show "polls start = polls tr" and "slept start = slept tr"
    unfolding sta d by (simp_all add: snd_log_healing_action polls_append slept_append)
qed

lemma execute_without_start:
  assumes "polling_start env tr i a = None"
  shows "fst (execute_ssm_command env tr i a) = False
         \<and> polls (snd (execute_ssm_command env tr i a)) = polls tr
         \<and> slept (snd (execute_ssm_command env tr i a)) = slept tr"
proof (cases "AUTO_HEALING_ENABLED env \<and> running_now env tr i")
  case False
  show ?thesis
  proof (cases "running_now env tr i")
    case False
    then show ?thesis using execute_ssm_command_not_running [of env tr i a] by simp
  next
    case True
    with False have "\<not> AUTO_HEALING_ENABLED env" by simp
    then show ?thesis
      by (simp add: execute_ssm_command_def polls_append slept_append)
  qed
next
  case True
  then have en: "AUTO_HEALING_ENABLED env" and run: "running_now env tr i" by simp_all
  obtain inst tr1 where g: "get_instance_details env tr i = (inst, tr1)"
    by (cases "get_instance_details env tr i")
  from run g have t: "py_truthy inst"
    and st: "and_then (py_item inst ''State'') (\<lambda>state. py_item state ''Name'') = Inr (PStr ''running'')"
    by (simp_all add: running_now_def)
  have d: "dispatch_trace env tr i a
             = tr1 @ [Log INFO ''Executing SSM command: {} on instance {}'' [PStr a, PStr i]]"
    using g by (simp add: dispatch_trace_def)
  from assms True obtain e where
    sr: "send_and_read_id env (dispatch_trace env tr i a) i (command_for a) = Inl e"
    by (auto simp: polling_start_def split: sum.splits)
  obtain logs where "tr1 = tr @ DescribeInstances i # logs" "slept logs = 0" "polls logs = 0"
    using get_instance_details_trace [of env tr i] g by auto
  then have c: "polls tr1 = polls tr" "slept tr1 = slept tr"
    by (simp_all add: polls_append slept_append)
  have "execute_ssm_command env tr i a = dispatch_and_wait env tr1 i a"
    using en g t st by (simp add: execute_ssm_command_def)
  also have "\<dots> = ssm_failed env
                     (tr1 @ [Log INFO ''Executing SSM command: {} on instance {}'' [PStr a, PStr i],
                             SendCommand i (command_for a) (HEALING_ACTION_TIMEOUT env)]) i a e"
    using sr unfolding d by (simp add: dispatch_and_wait_def Let_def)
  finally show ?thesis using c
    by (simp add: ssm_failed_result polls_append slept_append)
qed

lemma execute_final:
  assumes ps: "polling_start env tr i a = Some (c, start)"
      and k: "k < 10"
      and ap: "after_pending env start c i k = Some t"
      and s: "status_seen env t c i = Inr status"
      and f: "status = PStr ''Success'' \<or> status = PStr ''Failed''"
  shows "fst (execute_ssm_command env tr i a) = (status = PStr ''Success'')
         \<and> polls (snd (execute_ssm_command env tr i a)) = polls tr + Suc k
         \<and> slept (snd (execute_ssm_command env tr i a)) = slept tr + 3 * Suc k"
proof -
  obtain n where n: "max_attempts = k + Suc n"
    using k by (metis add_Suc_right less_imp_Suc_add max_attempts_def)
  have "poll env start i a c max_attempts = poll env t i a c (Suc n)"
    unfolding n using poll_after_pending [OF ap] .
  moreover obtain r tr5 where p: "poll env t i a c (Suc n) = (r, tr5)"
    by (cases "poll env t i a c (Suc n)")
  moreover from poll_final [OF s f, of a n] p
  have "r = Inr (Some (status = PStr ''Success''))" "polls tr5 = Suc (polls t)"
    "slept tr5 = slept t + 3" by simp_all
  ultimately have "execute_ssm_command env tr i a = (status = PStr ''Success'', tr5)"
    and "polls tr5 = Suc (polls t)" and "slept tr5 = slept t + 3"
    using execute_from_start(1) [OF ps] by simp_all
  with after_pending_counts [OF ap] execute_from_start(2,3) [OF ps]
  show ?thesis by simp
qed

lemma execute_timeout:
  assumes ps: "polling_start env tr i a = Some (c, start)"
      and ap: "after_pending env start c i 10 = Some t"
  shows "execute_ssm_command env tr i a
           = (False, t @ [Log WARNING ''Command {} did not complete within timeout period'' [c]])
         \<and> polls t = polls tr + 10 \<and> slept t = slept tr + 30"
proof -
  have "poll env start i a c (10 + 0) = poll env t i a c 0"
    using poll_after_pending [OF ap] .
  then have "poll env start i a c max_attempts = (Inr None, t)"
    by (simp add: max_attempts_def)
  then have "execute_ssm_command env tr i a
           = (False, t @ [Log WARNING ''Command {} did not complete within timeout period'' [c]])"
    using execute_from_start(1) [OF ps] by simp
  with after_pending_counts [OF ap] execute_from_start(2,3) [OF ps]
  show ?thesis by simp
qed

text \<open>
  Claim C5. Whatever the collaborators answer, a call of \<^verbatim>\<open>execute_ssm_command\<close> returns,
  adds at most ten status requests to the trace, and sleeps three units before each of
  them, thirty at most. When no command was dispatched it makes no request and returns
  \<^verbatim>\<open>False\<close>. When one was dispatched and the first \<open>k\<close> requests, fewer than ten, saw a
  status other than \<^verbatim>\<open>Success\<close> and \<^verbatim>\<open>Failed\<close>, then a next request that sees
  \<^verbatim>\<open>Success\<close> makes the call return \<^verbatim>\<open>True\<close>, and one that sees \<^verbatim>\<open>Failed\<close> makes it
  return \<^verbatim>\<open>False\<close>, in both cases after \<open>k + 1\<close> requests. When the first ten requests
  all saw such another status, the call returns \<^verbatim>\<open>False\<close> after exactly ten requests
  and thirty units of sleep, its last act being the warning that the command did not
  complete.
\<close>

theorem polling_protocol:
  "polls (snd (execute_ssm_command env tr instance_id action)) \<le> polls tr + 10
   \<and> slept (snd (execute_ssm_command env tr instance_id action)) + 3 * polls tr
       = slept tr + 3 * polls (snd (execute_ssm_command env tr instance_id action))
   \<and> slept (snd (execute_ssm_command env tr instance_id action)) \<le> slept tr + 30
   \<and> (polling_start env tr instance_id action = None
      \<longrightarrow> fst (execute_ssm_command env tr instance_id action) = False
        \<and> polls (snd (execute_ssm_command env tr instance_id action)) = polls tr
        \<and> slept (snd (execute_ssm_command env tr instance_id action)) = slept tr)
   \<and> (polling_start env tr instance_id action = Some (command_id, start)
      \<longrightarrow> (k < 10 \<and> after_pending env start command_id instance_id k = Some t
             \<and> status_seen env t command_id instance_id = Inr (PStr ''Success'')
            \<longrightarrow> fst (execute_ssm_command env tr instance_id action) = True
              \<and> polls (snd (execute_ssm_command env tr instance_id action)) = polls tr + Suc k
              \<and> slept (snd (execute_ssm_command env tr instance_id action))
                  = slept tr + 3 * Suc k)
        \<and> (k < 10 \<and> after_pending env start command_id instance_id k = Some t
             \<and> status_seen env t command_id instance_id = Inr (PStr ''Failed'')
            \<longrightarrow> fst (execute_ssm_command env tr instance_id action) = False
              \<and> polls (snd (execute_ssm_command env tr instance_id action)) = polls tr + Suc k
              \<and> slept (snd (execute_ssm_command env tr instance_id action))
                  = slept tr + 3 * Suc k)
        \<and> (after_pending env start command_id instance_id 10 = Some t
            \<longrightarrow> execute_ssm_command env tr instance_id action
                  = (False, t @ [Log WARNING ''Command {} did not complete within timeout period''
                                   [command_id]])
              \<and> polls t = polls tr + 10 \<and> slept t = slept tr + 30))"
proof -
  have b: "polls (snd (execute_ssm_command env tr instance_id action)) \<le> polls tr + 10
   \<and> slept (snd (execute_ssm_command env tr instance_id action)) + 3 * polls tr
       = slept tr + 3 * polls (snd (execute_ssm_command env tr instance_id action))
   \<and> slept (snd (execute_ssm_command env tr instance_id action)) \<le> slept tr + 30"
    by (rule execute_ssm_command_bound)
  have n: "polling_start env tr instance_id action = None
      \<longrightarrow> fst (execute_ssm_command env tr instance_id action) = False
        \<and> polls (snd (execute_ssm_command env tr instance_id action)) = polls tr
        \<and> slept (snd (execute_ssm_command env tr instance_id action)) = slept tr"
    using execute_without_start by blast
  have s: "fst (execute_ssm_command env tr instance_id action) = True
              \<and> polls (snd (execute_ssm_command env tr instance_id action)) = polls tr + Suc k
              \<and> slept (snd (execute_ssm_command env tr instance_id action))
                  = slept tr + 3 * Suc k"
    if "polling_start env tr instance_id action = Some (command_id, start)"
      and "k < 10 \<and> after_pending env start command_id instance_id k = Some t
             \<and> status_seen env t command_id instance_id = Inr (PStr ''Success'')"
    using execute_final [of env tr instance_id action command_id start k t "PStr ''Success''"] that
    by simp
  have f: "fst (execute_ssm_command env tr instance_id action) = False
              \<and> polls (snd (execute_ssm_command env tr instance_id action)) = polls tr + Suc k
              \<and> slept (snd (execute_ssm_command env tr instance_id action))
                  = slept tr + 3 * Suc k"
    if "polling_start env tr instance_id action = Some (command_id, start)"
      and "k < 10 \<and> after_pending env start command_id instance_id k = Some t
             \<and> status_seen env t command_id instance_id = Inr (PStr ''Failed'')"
    using execute_final [of env tr instance_id action command_id start k t "PStr ''Failed''"] that
    by simp
  have o: "execute_ssm_command env tr instance_id action
                  = (False, t @ [Log WARNING ''Command {} did not complete within timeout period''
                                   [command_id]])
              \<and> polls t = polls tr + 10 \<and> slept t = slept tr + 30"
    if "polling_start env tr instance_id action = Some (command_id, start)"
      and "after_pending env start command_id instance_id 10 = Some t"
    using execute_timeout that by blast
  from b n s f o show ?thesis by blast
qed

theorem polling_protocol_witness:
  "fst (execute_ssm_command succeeding_env [] ''i-0abc123'' ''clear_cache'') = True
   \<and> polls (snd (execute_ssm_command succeeding_env [] ''i-0abc123'' ''clear_cache'')) = 1
   \<and> slept (snd (execute_ssm_command succeeding_env [] ''i-0abc123'' ''clear_cache'')) = 3
   \<and> fst (execute_ssm_command failing_env [] ''i-0abc123'' ''clear_cache'') = False
   \<and> polls (snd (execute_ssm_command failing_env [] ''i-0abc123'' ''clear_cache'')) = 1
   \<and> fst (execute_ssm_command slow_env [] ''i-0abc123'' ''clear_cache'') = True
   \<and> polls (snd (execute_ssm_command slow_env [] ''i-0abc123'' ''clear_cache'')) = 4
   \<and> slept (snd (execute_ssm_command slow_env [] ''i-0abc123'' ''clear_cache'')) = 12
   \<and> fst (execute_ssm_command late_env [] ''i-0abc123'' ''clear_cache'') = False
   \<and> polls (snd (execute_ssm_command late_env [] ''i-0abc123'' ''clear_cache'')) = 10
   \<and> slept (snd (execute_ssm_command late_env [] ''i-0abc123'' ''clear_cache'')) = 30
   \<and> last (snd (execute_ssm_command late_env [] ''i-0abc123'' ''clear_cache''))
       = Log WARNING ''Command {} did not complete within timeout period'' [PStr ''cmd-1'']
   \<and> polling_start stopped_env [] ''i-0abc123'' ''clear_cache'' = None
   \<and> fst (execute_ssm_command stopped_env [] ''i-0abc123'' ''clear_cache'') = False
   \<and> polls (snd (execute_ssm_command stopped_env [] ''i-0abc123'' ''clear_cache'')) = 0"
proof -
  let ?s1 = "snd (the (polling_start succeeding_env [] ''i-0abc123'' ''clear_cache''))"
  have p1: "polling_start succeeding_env [] ''i-0abc123'' ''clear_cache'' = Some (PStr ''cmd-1'', ?s1)"
    by code_simp
  have a1: "after_pending succeeding_env ?s1 (PStr ''cmd-1'') ''i-0abc123'' 0 = Some ?s1" by simp
  have s1: "status_seen succeeding_env ?s1 (PStr ''cmd-1'') ''i-0abc123'' = Inr (PStr ''Success'')"
    by (simp add: status_seen_def succeeding_env_def and_then_def)
  have 1: "fst (execute_ssm_command succeeding_env [] ''i-0abc123'' ''clear_cache'') = True
   \<and> polls (snd (execute_ssm_command succeeding_env [] ''i-0abc123'' ''clear_cache'')) = polls [] + Suc 0
   \<and> slept (snd (execute_ssm_command succeeding_env [] ''i-0abc123'' ''clear_cache'')) = slept [] + 3 * Suc 0"
    using p1 a1 s1 polling_protocol
      [where env = succeeding_env and tr = "[]" and instance_id = "''i-0abc123''"
         and action = "''clear_cache''" and command_id = "PStr ''cmd-1''" and start = ?s1
         and k = 0 and t = ?s1]
    by simp
  let ?s2 = "snd (the (polling_start failing_env [] ''i-0abc123'' ''clear_cache''))"
  have p2: "polling_start failing_env [] ''i-0abc123'' ''clear_cache'' = Some (PStr ''cmd-1'', ?s2)"
    by code_simp
  have a2: "after_pending failing_env ?s2 (PStr ''cmd-1'') ''i-0abc123'' 0 = Some ?s2" by simp
  have s2: "status_seen failing_env ?s2 (PStr ''cmd-1'') ''i-0abc123'' = Inr (PStr ''Failed'')"
    by (simp add: status_seen_def failing_env_def and_then_def)
  have 2: "fst (execute_ssm_command failing_env [] ''i-0abc123'' ''clear_cache'') = False
   \<and> polls (snd (execute_ssm_command failing_env [] ''i-0abc123'' ''clear_cache'')) = polls [] + Suc 0"
    using p2 a2 s2 polling_protocol
      [where env = failing_env and tr = "[]" and instance_id = "''i-0abc123''"
         and action = "''clear_cache''" and command_id = "PStr ''cmd-1''" and start = ?s2
         and k = 0 and t = ?s2]
    by simp
  let ?s3 = "snd (the (polling_start slow_env [] ''i-0abc123'' ''clear_cache''))"
  let ?t3 = "the (after_pending slow_env ?s3 (PStr ''cmd-1'') ''i-0abc123'' 3)"
  have p3: "polling_start slow_env [] ''i-0abc123'' ''clear_cache'' = Some (PStr ''cmd-1'', ?s3)"
    by code_simp
  have a3: "after_pending slow_env ?s3 (PStr ''cmd-1'') ''i-0abc123'' 3 = Some ?t3" by code_simp
  have s3: "status_seen slow_env ?t3 (PStr ''cmd-1'') ''i-0abc123'' = Inr (PStr ''Success'')"
    by code_simp
  have 3: "fst (execute_ssm_command slow_env [] ''i-0abc123'' ''clear_cache'') = True
   \<and> polls (snd (execute_ssm_command slow_env [] ''i-0abc123'' ''clear_cache'')) = polls [] + Suc 3
   \<and> slept (snd (execute_ssm_command slow_env [] ''i-0abc123'' ''clear_cache'')) = slept [] + 3 * Suc 3"
    using p3 a3 s3 polling_protocol
      [where env = slow_env and tr = "[]" and instance_id = "''i-0abc123''"
         and action = "''clear_cache''" and command_id = "PStr ''cmd-1''" and start = ?s3
         and k = 3 and t = ?t3]
    by simp
  let ?s4 = "snd (the (polling_start late_env [] ''i-0abc123'' ''clear_cache''))"
  let ?t4 = "the (after_pending late_env ?s4 (PStr ''cmd-1'') ''i-0abc123'' 10)"
  have p4: "polling_start late_env [] ''i-0abc123'' ''clear_cache'' = Some (PStr ''cmd-1'', ?s4)"
    by code_simp
  have a4: "after_pending late_env ?s4 (PStr ''cmd-1'') ''i-0abc123'' 10 = Some ?t4" by code_simp
  have 4: "execute_ssm_command late_env [] ''i-0abc123'' ''clear_cache''
             = (False, ?t4 @ [Log WARNING ''Command {} did not complete within timeout period''
                               [PStr ''cmd-1'']])
           \<and> polls ?t4 = polls [] + 10 \<and> slept ?t4 = slept [] + 30"
    using p4 a4 polling_protocol
      [where env = late_env and tr = "[]" and instance_id = "''i-0abc123''"
         and action = "''clear_cache''" and command_id = "PStr ''cmd-1''" and start = ?s4
         and t = ?t4]
    by simp
  have p5: "polling_start stopped_env [] ''i-0abc123'' ''clear_cache'' = None" by code_simp
  have 5: "fst (execute_ssm_command stopped_env [] ''i-0abc123'' ''clear_cache'') = False
   \<and> polls (snd (execute_ssm_command stopped_env [] ''i-0abc123'' ''clear_cache'')) = polls []"
    using p5 polling_protocol
      [where env = stopped_env and tr = "[]" and instance_id = "''i-0abc123''"
         and action = "''clear_cache''"]
    by simp
  from 1 2 3 4 p5 5 show ?thesis by (simp add: polls_append slept_append)
qed

section \<open>The response of the handler\<close>

lemma heal_well_formed:
  "fst (heal env tr message i inst) = Inr r \<Longrightarrow> well_formed r"
  by (auto simp: heal_def Let_def well_formed_def split: sum.splits if_splits)

lemma try_well_formed:
  assumes "fst (lambda_handler_try env tr event) = Inr r"
  shows "well_formed r"
proof -
  obtain message tr1 where p: "parse_sns_message env tr event = (message, tr1)"
    by (cases "parse_sns_message env tr event")
  obtain x tr2 where e: "extract_instance_id message tr1 = (x, tr2)"
    by (cases "extract_instance_id message tr1")
  show ?thesis
  proof (cases x)
    case (Inl exn)
    with assms p e show ?thesis by (simp add: lambda_handler_try_def)
  next
    case (Inr found)
    show ?thesis
    proof (cases found)
      case None
      with assms p e Inr show ?thesis
        by (auto simp: lambda_handler_try_def well_formed_def)
    next
      case (Some i)
      obtain inst tr4 where g: "get_instance_details env
          (tr2 @ [Log INFO ''Processing alert for instance: {}'' [PStr i]]) i = (inst, tr4)"
        by (cases "get_instance_details env
          (tr2 @ [Log INFO ''Processing alert for instance: {}'' [PStr i]]) i")
      show ?thesis
      proof (cases "py_truthy inst")
        case False
        with assms p e Inr Some g show ?thesis
          by (auto simp: lambda_handler_try_def well_formed_def)
      next
        case True
        with assms p e Inr Some g have "fst (heal env tr4 message i inst) = Inr r"
          by (simp add: lambda_handler_try_def)
        then show ?thesis by (rule heal_well_formed)
      qed
    qed
  qed
qed

lemma lambda_handler_cases:
  "(\<exists>r. fst (lambda_handler_try env (tr @ [Log INFO ''Lambda invoked with event: {}'' [event]]) event) = Inr r
        \<and> fst (lambda_handler env tr event) = r)
   \<or> (\<exists>e. fst (lambda_handler_try env (tr @ [Log INFO ''Lambda invoked with event: {}'' [event]]) event) = Inl e
        \<and> fst (lambda_handler env tr event)
            = \<lparr>statusCode = 500,
               body = PDict [(''error'', PStr (''Lambda execution failed: '' @ exc_str e))]\<rparr>)"
  by (auto simp: lambda_handler_def split: prod.splits sum.splits)

lemma lambda_handler_well_formed: "well_formed (fst (lambda_handler env tr event))"
  using lambda_handler_cases [of env tr event] try_well_formed
  by (auto simp: well_formed_def)

lemma determine_dict: "determine_healing_action message i = Inr a \<Longrightarrow> \<exists>kvs. message = PDict kvs"
  by (cases message) (simp_all add: determine_healing_action_def alarm_name_of_def)

text \<open>
  Claim C1. For every environment and every event, \<^verbatim>\<open>lambda_handler\<close> returns a
  well-formed envelope: nothing escapes the handler's \<^verbatim>\<open>try\<close>, and the status code is
  200, 400, 404 or 500. An exception raised inside the \<^verbatim>\<open>try\<close> gives 500 with the
  exception's text in the body; no extracted identifier gives 400; an instance lookup that
  returns nothing gives 404; and once the instance is found, its state read and the action
  determined, the code is 200 when the executor returns \<^verbatim>\<open>True\<close> and 500 when it
  returns \<^verbatim>\<open>False\<close>.
\<close>

theorem lambda_handler_envelope:
  "well_formed (fst (lambda_handler env tr event))
   \<and> (fst (lambda_handler_try env (tr @ [Log INFO ''Lambda invoked with event: {}'' [event]]) event)
         = Inl e
      \<longrightarrow> fst (lambda_handler env tr event)
            = \<lparr>statusCode = 500,
               body = PDict [(''error'', PStr (''Lambda execution failed: '' @ exc_str e))]\<rparr>)
   \<and> (parse_sns_message env (tr @ [Log INFO ''Lambda invoked with event: {}'' [event]]) event
         = (message, tr1)
      \<longrightarrow> (fst (extract_instance_id message tr1) = Inr None
            \<longrightarrow> fst (lambda_handler env tr event)
                  = \<lparr>statusCode = 400,
                     body = PDict [(''error'', PStr ''Could not extract instance ID from alert'')]\<rparr>)
        \<and> (extract_instance_id message tr1 = (Inr (Some instance_id), tr2)
             \<and> get_instance_details env
                  (tr2 @ [Log INFO ''Processing alert for instance: {}'' [PStr instance_id]])
                  instance_id = (inst, tr4)
            \<longrightarrow> (\<not> py_truthy inst
                  \<longrightarrow> fst (lambda_handler env tr event)
                        = \<lparr>statusCode = 404,
                           body = PDict [(''error'',
                                    PStr (''Instance '' @ instance_id @ '' not found''))]\<rparr>)
              \<and> (py_truthy inst
                   \<and> and_then (py_item inst ''State'') (\<lambda>state. py_item state ''Name'')
                       = Inr state_name
                   \<and> determine_healing_action message instance_id = Inr action
                  \<longrightarrow> statusCode (fst (lambda_handler env tr event))
                        = (if fst (execute_action env
                                     (tr4 @ [Log INFO ''Instance state: {}'' [state_name],
                                             Log INFO ''Determined healing action: {}'' [PStr action]])
                                     instance_id action)
                           then 200 else 500))))"
proof (intro conjI impI)
  let ?tr0 = "tr @ [Log INFO ''Lambda invoked with event: {}'' [event]]"
  show "well_formed (fst (lambda_handler env tr event))" by (rule lambda_handler_well_formed)
  {
    assume "fst (lambda_handler_try env ?tr0 event) = Inl e"
    then show "fst (lambda_handler env tr event)
            = \<lparr>statusCode = 500,
               body = PDict [(''error'', PStr (''Lambda execution failed: '' @ exc_str e))]\<rparr>"
      using lambda_handler_cases [of env tr event] by auto
  }
  assume p: "parse_sns_message env ?tr0 event = (message, tr1)"
  {
    assume "fst (extract_instance_id message tr1) = Inr None"
    then show "fst (lambda_handler env tr event)
                  = \<lparr>statusCode = 400,
                     body = PDict [(''error'', PStr ''Could not extract instance ID from alert'')]\<rparr>"
      using p by (cases "extract_instance_id message tr1")
                 (simp add: lambda_handler_def lambda_handler_try_def)
  }
  assume "extract_instance_id message tr1 = (Inr (Some instance_id), tr2)
             \<and> get_instance_details env
                  (tr2 @ [Log INFO ''Processing alert for instance: {}'' [PStr instance_id]])
                  instance_id = (inst, tr4)"
  then have x: "extract_instance_id message tr1 = (Inr (Some instance_id), tr2)"
    and g: "get_instance_details env
                  (tr2 @ [Log INFO ''Processing alert for instance: {}'' [PStr instance_id]])
                  instance_id = (inst, tr4)" by simp_all
  {
    assume "\<not> py_truthy inst"
    then show "fst (lambda_handler env tr event)
                        = \<lparr>statusCode = 404,
                           body = PDict [(''error'',
                                    PStr (''Instance '' @ instance_id @ '' not found''))]\<rparr>"
      using p x g by (simp add: lambda_handler_def lambda_handler_try_def)
  }
  assume "py_truthy inst
                   \<and> and_then (py_item inst ''State'') (\<lambda>state. py_item state ''Name'')
                       = Inr state_name
                   \<and> determine_healing_action message instance_id = Inr action"
  then have t: "py_truthy inst"
    and st: "and_then (py_item inst ''State'') (\<lambda>state. py_item state ''Name'') = Inr state_name"
    and d: "determine_healing_action message instance_id = Inr action" by simp_all
  obtain kvs where m: "message = PDict kvs" using determine_dict [OF d] by blast
  have "lambda_handler_try env ?tr0 event = heal env tr4 message instance_id inst"
    using p x g t by (simp add: lambda_handler_try_def)
  moreover have "\<exists>r tr'. heal env tr4 message instance_id inst = (Inr r, tr')
      \<and> statusCode r = (if fst (execute_action env
                                     (tr4 @ [Log INFO ''Instance state: {}'' [state_name],
                                             Log INFO ''Determined healing action: {}'' [PStr action]])
                                     instance_id action)
                           then 200 else 500)"
    using st d m by (simp add: heal_def Let_def)
  ultimately show "statusCode (fst (lambda_handler env tr event))
                        = (if fst (execute_action env
                                     (tr4 @ [Log INFO ''Instance state: {}'' [state_name],
                                             Log INFO ''Determined healing action: {}'' [PStr action]])
                                     instance_id action)
                           then 200 else 500)"
    by (auto simp: lambda_handler_def)
qed

theorem lambda_handler_envelope_witness:
  "fst (lambda_handler_try sample_env [Log INFO ''Lambda invoked with event: {}'' [number_event]]
          number_event)
     = Inl (TypeError, ''argument of type '' @ sq @ ''int'' @ sq @ '' is not iterable'')
   \<and> fst (lambda_handler sample_env [] number_event)
       = \<lparr>statusCode = 500,
          body = PDict [(''error'',
                   PStr (''Lambda execution failed: ''
                         @ exc_str (TypeError, ''argument of type '' @ sq @ ''int'' @ sq
                                                 @ '' is not iterable'')))]\<rparr>
   \<and> statusCode (fst (lambda_handler sample_env [] plain_text_event)) = 400
   \<and> statusCode (fst (lambda_handler missing_env [] unknown_instance_event)) = 404
   \<and> statusCode (fst (lambda_handler sample_env [] status_alarm_event)) = 200
   \<and> statusCode (fst (lambda_handler sample_env [] memory_alarm_event)) = 500
   \<and> well_formed (fst (lambda_handler sample_env [] status_alarm_event))"
proof -
  have f: "fst (lambda_handler_try sample_env ([] @ [Log INFO ''Lambda invoked with event: {}'' [number_event]])
                 number_event)
             = Inl (TypeError, ''argument of type '' @ sq @ ''int'' @ sq @ '' is not iterable'')"
    by code_simp
  have 1: "fst (lambda_handler sample_env [] number_event)
       = \<lparr>statusCode = 500,
          body = PDict [(''error'',
                   PStr (''Lambda execution failed: ''
                         @ exc_str (TypeError, ''argument of type '' @ sq @ ''int'' @ sq
                                                 @ '' is not iterable'')))]\<rparr>"
    using f lambda_handler_envelope
      [where env = sample_env and tr = "[]" and event = number_event
         and e = "(TypeError, ''argument of type '' @ sq @ ''int'' @ sq @ '' is not iterable'')"]
    by blast
  let ?p2 = "parse_sns_message sample_env
               ([] @ [Log INFO ''Lambda invoked with event: {}'' [plain_text_event]]) plain_text_event"
  have p2: "?p2 = (fst ?p2, snd ?p2)" by simp
  have x2: "fst (extract_instance_id (fst ?p2) (snd ?p2)) = Inr None" by code_simp
  have 2: "statusCode (fst (lambda_handler sample_env [] plain_text_event)) = 400"
    using p2 x2 lambda_handler_envelope
      [where env = sample_env and tr = "[]" and event = plain_text_event
         and message = "fst ?p2" and ?tr1.0 = "snd ?p2"]
    by simp
  let ?p3 = "parse_sns_message missing_env
               ([] @ [Log INFO ''Lambda invoked with event: {}'' [unknown_instance_event]])
               unknown_instance_event"
  let ?x3 = "extract_instance_id (fst ?p3) (snd ?p3)"
  let ?g3 = "get_instance_details missing_env
               (snd ?x3 @ [Log INFO ''Processing alert for instance: {}'' [PStr ''i-0def456'']])
               ''i-0def456''"
  have p3: "?p3 = (fst ?p3, snd ?p3)" by simp
  have "fst ?x3 = Inr (Some ''i-0def456'')" by code_simp
  then have x3: "?x3 = (Inr (Some ''i-0def456''), snd ?x3)" by (simp add: prod_eq_iff)
  have g3: "?g3 = (fst ?g3, snd ?g3)" by simp
  have n3: "\<not> py_truthy (fst ?g3)" by code_simp
  have 3: "statusCode (fst (lambda_handler missing_env [] unknown_instance_event)) = 404"
    using p3 x3 g3 n3 lambda_handler_envelope
      [where env = missing_env and tr = "[]" and event = unknown_instance_event
         and message = "fst ?p3" and ?tr1.0 = "snd ?p3" and instance_id = "''i-0def456''"
         and ?tr2.0 = "snd ?x3" and inst = "fst ?g3" and ?tr4.0 = "snd ?g3"]
    by simp
  let ?p4 = "parse_sns_message sample_env
               ([] @ [Log INFO ''Lambda invoked with event: {}'' [status_alarm_event]])
               status_alarm_event"
  let ?x4 = "extract_instance_id (fst ?p4) (snd ?p4)"
  let ?g4 = "get_instance_details sample_env
               (snd ?x4 @ [Log INFO ''Processing alert for instance: {}'' [PStr ''i-0abc123'']])
               ''i-0abc123''"
  have p4: "?p4 = (fst ?p4, snd ?p4)" by simp
  have "fst ?x4 = Inr (Some ''i-0abc123'')" by code_simp
  then have x4: "?x4 = (Inr (Some ''i-0abc123''), snd ?x4)" by (simp add: prod_eq_iff)
  have g4: "?g4 = (fst ?g4, snd ?g4)" by simp
  have t4: "py_truthy (fst ?g4)" by code_simp
  have s4: "and_then (py_item (fst ?g4) ''State'') (\<lambda>state. py_item state ''Name'')
              = Inr (PStr ''running'')" by code_simp
  have d4: "determine_healing_action (fst ?p4) ''i-0abc123'' = Inr ''reboot''" by code_simp
  have e4: "fst (execute_action sample_env
                   (snd ?g4 @ [Log INFO ''Instance state: {}'' [PStr ''running''],
                               Log INFO ''Determined healing action: {}'' [PStr ''reboot'']])
                   ''i-0abc123'' ''reboot'')" by code_simp
  have 4: "statusCode (fst (lambda_handler sample_env [] status_alarm_event)) = 200"
    using p4 x4 g4 t4 s4 d4 e4 lambda_handler_envelope
      [where env = sample_env and tr = "[]" and event = status_alarm_event
         and message = "fst ?p4" and ?tr1.0 = "snd ?p4" and instance_id = "''i-0abc123''"
         and ?tr2.0 = "snd ?x4" and inst = "fst ?g4" and ?tr4.0 = "snd ?g4"
         and state_name = "PStr ''running''" and action = "''reboot''"]
    by simp
  have 6: "well_formed (fst (lambda_handler sample_env [] status_alarm_event))"
    using lambda_handler_envelope [where env = sample_env and tr = "[]" and event = status_alarm_event]
    by blast
  let ?p5 = "parse_sns_message sample_env
               ([] @ [Log INFO ''Lambda invoked with event: {}'' [memory_alarm_event]])
               memory_alarm_event"
  let ?x5 = "extract_instance_id (fst ?p5) (snd ?p5)"
  let ?g5 = "get_instance_details sample_env
               (snd ?x5 @ [Log INFO ''Processing alert for instance: {}'' [PStr ''i-0abc123'']])
               ''i-0abc123''"
  have p5: "?p5 = (fst ?p5, snd ?p5)" by simp
  have "fst ?x5 = Inr (Some ''i-0abc123'')" by code_simp
  then have x5: "?x5 = (Inr (Some ''i-0abc123''), snd ?x5)" by (simp add: prod_eq_iff)
  have g5: "?g5 = (fst ?g5, snd ?g5)" by simp
  have t5: "py_truthy (fst ?g5)" by code_simp
  have s5: "and_then (py_item (fst ?g5) ''State'') (\<lambda>state. py_item state ''Name'')
              = Inr (PStr ''running'')" by code_simp
  have d5: "determine_healing_action (fst ?p5) ''i-0abc123'' = Inr ''clear_cache''" by code_simp
  have e5: "\<not> fst (execute_action sample_env
                   (snd ?g5 @ [Log INFO ''Instance state: {}'' [PStr ''running''],
                               Log INFO ''Determined healing action: {}'' [PStr ''clear_cache'']])
                   ''i-0abc123'' ''clear_cache'')" by code_simp
  have 5: "statusCode (fst (lambda_handler sample_env [] memory_alarm_event)) = 500"
    using p5 x5 g5 t5 s5 d5 e5 lambda_handler_envelope
      [where env = sample_env and tr = "[]" and event = memory_alarm_event
         and message = "fst ?p5" and ?tr1.0 = "snd ?p5" and instance_id = "''i-0abc123''"
         and ?tr2.0 = "snd ?x5" and inst = "fst ?g5" and ?tr4.0 = "snd ?g5"
         and state_name = "PStr ''running''" and action = "''clear_cache''"]
    by simp
  from f 1 2 3 4 5 6 show ?thesis by simp
qed

end
